theory Spec2Isabelle
  imports Complex_Main
begin

section \<open>Values of the source language\<close>

text \<open>
  The repository is a TypeScript REST backend over an ORM. Its numbers are IEEE doubles and
  the ORM's decimal columns; they are embedded as exact rationals (\<open>rat\<close>) for amounts of
  money and as \<open>int\<close> for the integer columns (quantities, counters), so every statement
  below is about the arithmetic the code writes down, free of rounding error. Strings are
  byte strings; \<open>toLowerCase\<close>, \<open>toUpperCase\<close> and \<open>trim\<close> are the ASCII parts of the
  JavaScript methods of the same names.
\<close>

definition toLowerCase_char :: "char \<Rightarrow> char" where
  "toLowerCase_char c =
     (case map_of (zip ''ABCDEFGHIJKLMNOPQRSTUVWXYZ'' ''abcdefghijklmnopqrstuvwxyz'') c of
        Some d \<Rightarrow> d
      | None \<Rightarrow> c)"

definition toLowerCase :: "string \<Rightarrow> string" where
  "toLowerCase s = map toLowerCase_char s"

definition toUpperCase_char :: "char \<Rightarrow> char" where
  "toUpperCase_char c =
     (case map_of (zip ''abcdefghijklmnopqrstuvwxyz'' ''ABCDEFGHIJKLMNOPQRSTUVWXYZ'') c of
        Some d \<Rightarrow> d
      | None \<Rightarrow> c)"

definition toUpperCase :: "string \<Rightarrow> string" where
  "toUpperCase s = map toUpperCase_char s"

definition is_white_space :: "char \<Rightarrow> bool" where
  "is_white_space c = (c \<in> set [CHR 0x09, CHR 0x0A, CHR 0x0B, CHR 0x0C, CHR 0x0D, CHR '' ''])"

definition trim :: "string \<Rightarrow> string" where
  "trim s = rev (dropWhile is_white_space (rev (dropWhile is_white_space s)))"

text \<open>\<open>starts_with s t\<close> is \<open>s.startsWith(t)\<close>; \<open>str_includes s t\<close> is \<open>s.includes(t)\<close>: the
  string \<open>t\<close> occurs in \<open>s\<close> as a contiguous block.\<close>

fun starts_with :: "string \<Rightarrow> string \<Rightarrow> bool" where
  "starts_with s [] = True"
| "starts_with [] (d # t) = False"
| "starts_with (c # s) (d # t) = (c = d \<and> starts_with s t)"

fun str_includes :: "string \<Rightarrow> string \<Rightarrow> bool" where
  "str_includes [] t = (t = [])"
| "str_includes (c # s) t = (starts_with (c # s) t \<or> str_includes s t)"

text \<open>\<open>join sep xs\<close> is \<open>xs.join(sep)\<close>.\<close>

fun join :: "string \<Rightarrow> string list \<Rightarrow> string" where
  "join sep [] = []"
| "join sep [x] = x"
| "join sep (x # y # ys) = x @ sep @ join sep (y # ys)"

text \<open>Decimal rendering of an integer inside a template string.\<close>

definition digit_char :: "nat \<Rightarrow> char" where
  "digit_char d = ''0123456789'' ! (d mod 10)"

function string_of_nat :: "nat \<Rightarrow> string" where
  "string_of_nat n = (if n < 10 then [digit_char n] else string_of_nat (n div 10) @ [digit_char n])"
  by pat_completeness auto
termination
  by (relation "measure id") auto

definition string_of_int :: "int \<Rightarrow> string" where
  "string_of_int i = (if i < 0 then CHR ''-'' # string_of_nat (nat (- i)) else string_of_nat (nat i))"

section \<open>Errors: \<open>customError.util.ts\<close> and \<open>errorHandler.middleware.ts\<close>\<close>

text \<open>
  A thrown value. \<open>err_statusCode\<close> is \<open>None\<close> for an error that is not a \<open>CustomError\<close>
  (a plain \<open>Error\<close>, an error of the ORM client): the handler's interface declares
  \<open>statusCode?: number\<close>. The \<open>errors\<close> payload is kept as an opaque string; the stack
  trace is not modelled.
\<close>

record js_error =
  err_message :: string
  err_statusCode :: "nat option"
  err_errors :: "string option"

definition CustomError :: "string \<Rightarrow> nat \<Rightarrow> string option \<Rightarrow> js_error" where
  "CustomError message statusCode errors =
     \<lparr>err_message = message, err_statusCode = Some statusCode, err_errors = errors\<rparr>"

text \<open>The subclasses; \<open>None\<close> for the message is the omitted argument, which takes the
  default of the constructor.\<close>

definition BadRequestError :: "string option \<Rightarrow> string option \<Rightarrow> js_error" where
  "BadRequestError message errors =
     CustomError (case message of None \<Rightarrow> ''Bad Request'' | Some m \<Rightarrow> m) 400 errors"



definition NotFoundError :: "string option \<Rightarrow> js_error" where
  "NotFoundError message =
     CustomError (case message of None \<Rightarrow> ''Resource not found'' | Some m \<Rightarrow> m) 404 None"




text \<open>An error thrown by the ORM client (a failed query, a violated constraint, a record to
  update that does not exist). It is no \<open>CustomError\<close> and carries no status code.\<close>

definition PrismaError :: "string \<Rightarrow> js_error" where
  "PrismaError message = \<lparr>err_message = message, err_statusCode = None, err_errors = None\<rparr>"





section \<open>Stock status\<close>

datatype stock_status = in_stock | low_stock | out_of_stock

text \<open>\<open>ProductController.transformProductResponse\<close>, \<open>CartController.getCart\<close> and
  \<open>WishlistController.getWishlist\<close> each compute the label with the same two tests.\<close>

definition transformProductResponse_stockStatus :: "int \<Rightarrow> int \<Rightarrow> stock_status" where
  "transformProductResponse_stockStatus stockQuantity lowStockThreshold =
     (if stockQuantity = 0 then out_of_stock
      else if stockQuantity \<le> lowStockThreshold then low_stock
      else in_stock)"

definition getCart_stockStatus :: "int \<Rightarrow> int \<Rightarrow> stock_status" where
  "getCart_stockStatus stockQuantity lowStockThreshold =
     (if stockQuantity = 0 then out_of_stock
      else if stockQuantity \<le> lowStockThreshold then low_stock
      else in_stock)"

definition getWishlist_stockStatus :: "int \<Rightarrow> int \<Rightarrow> stock_status" where
  "getWishlist_stockStatus stockQuantity lowStockThreshold =
     (if stockQuantity = 0 then out_of_stock
      else if stockQuantity \<le> lowStockThreshold then low_stock
      else in_stock)"

section \<open>Shipping: \<open>order.types.ts\<close>\<close>

definition KATHMANDU_VALLEY_CITIES :: "string list" where
  "KATHMANDU_VALLEY_CITIES =
     [''kathmandu'', ''lalitpur'', ''bhaktapur'', ''kirtipur'', ''madhyapur thimi'', ''thimi'']"

definition INSIDE_VALLEY :: rat where "INSIDE_VALLEY = 100"
definition OUTSIDE_VALLEY :: rat where "OUTSIDE_VALLEY = 200"
definition FREE_SHIPPING_THRESHOLD :: rat where "FREE_SHIPPING_THRESHOLD = 2000"

definition isInsideValley :: "string \<Rightarrow> bool" where
  "isInsideValley city =
     (let normalizedCity = trim (toLowerCase city)
      in list_ex (\<lambda>valleyCity. str_includes normalizedCity valleyCity \<or>
                                 str_includes valleyCity normalizedCity)
           KATHMANDU_VALLEY_CITIES)"


section \<open>Payment constants\<close>

definition PAYMENT_METHODS :: "string list" where
  "PAYMENT_METHODS = [''cod'', ''esewa'', ''khalti'', ''bank_transfer'']"

definition COD :: string where "COD = ''cod''"

definition ONLINE_PAYMENT_METHODS :: "string list" where
  "ONLINE_PAYMENT_METHODS = [''esewa'', ''khalti'', ''bank_transfer'']"

definition requiresTransactionNumber :: "string \<Rightarrow> bool" where
  "requiresTransactionNumber paymentMethod = (paymentMethod \<in> set ONLINE_PAYMENT_METHODS)"

section \<open>The database\<close>

text \<open>
  Rows of the tables the order flow touches, with the columns it reads or writes. The
  decimal columns (\<open>price\<close>, \<open>value\<close>, \<open>minPurchaseAmount\<close>, \<open>maxDiscountAmount\<close>, the
  amounts of an order) are the ones the code converts with \<open>Number(...)\<close>; a nullable
  column is an \<open>option\<close>. Dates are milliseconds since the epoch.
\<close>

record product_row =
  p_name :: string
  p_sku :: "string option"
  p_price :: rat
  p_stockQuantity :: int
  p_lowStockThreshold :: int
  p_isActive :: bool
  p_primaryImage :: "string option"

record cart_item =
  ci_id :: nat
  ci_userId :: nat
  ci_productId :: nat
  ci_quantity :: int

record discount_row =
  d_id :: nat
  d_name :: string
  d_code :: string
  d_type :: string
  d_value :: rat
  d_minPurchaseAmount :: "rat option"
  d_maxDiscountAmount :: "rat option"
  d_startDate :: int
  d_endDate :: int
  d_isActive :: bool
  d_usageLimit :: "int option"
  d_usedCount :: int

record order_item =
  oi_productId :: nat
  oi_productName :: string
  oi_productSku :: "string option"
  oi_productImage :: "string option"
  oi_price :: rat
  oi_quantity :: int
  oi_subtotal :: rat

text \<open>An order row carries its items (the \<open>items\<close> relation: the order items whose
  \<open>orderId\<close> is this order's id).\<close>

record order_row =
  o_id :: nat
  o_orderNumber :: string
  o_userId :: nat
  o_status :: string
  o_subtotal :: rat
  o_shippingCost :: rat
  o_tax :: rat
  o_discount :: rat
  o_total :: rat
  o_shippingFullName :: string
  o_shippingPhone :: string
  o_shippingAddressLine1 :: string
  o_shippingAddressLine2 :: "string option"
  o_shippingLandmark :: "string option"
  o_shippingCity :: string
  o_shippingProvince :: "string option"
  o_shippingPostalCode :: string
  o_shippingCountry :: string
  o_paymentMethod :: string
  o_paymentStatus :: string
  o_transactionNumber :: "string option"
  o_discountId :: "nat option"
  o_discountCode :: "string option"
  o_customerNote :: "string option"
  o_adminNote :: "string option"
  o_items :: "order_item list"

record wishlist_item =
  wi_id :: nat
  wi_userId :: nat
  wi_productId :: nat

text \<open>Products are keyed by their primary key; the other tables are lists of rows.\<close>

record db =
  product_rows :: "nat \<rightharpoonup> product_row"
  cartItem_rows :: "cart_item list"
  discount_rows :: "discount_row list"
  order_rows :: "order_row list"
  wishlistItem_rows :: "wishlist_item list"

subsection \<open>Queries of the ORM client\<close>

text \<open>A query is a function of the database that returns a value and the database after
  it, or throws.\<close>

type_synonym 'a query = "db \<Rightarrow> js_error + ('a \<times> db)"

text \<open>\<open>cartItem.findMany({where: {userId}, include: {product}})\<close>: the user's cart items,
  each with its product row. \<open>productId\<close> is a required relation, so a cart item without a
  product is an inconsistent result, which the client reports by throwing.\<close>

fun include_product :: "(nat \<rightharpoonup> product_row) \<Rightarrow> cart_item list
    \<Rightarrow> js_error + (cart_item \<times> product_row) list" where
  "include_product ps [] = Inr []"
| "include_product ps (c # cs) =
     (case ps (ci_productId c) of
        None \<Rightarrow> Inl (PrismaError ''Inconsistent query result: Field product is required'')
      | Some p \<Rightarrow>
          (case include_product ps cs of
             Inl e \<Rightarrow> Inl e
           | Inr rest \<Rightarrow> Inr ((c, p) # rest)))"

definition cartItem_findMany :: "nat \<Rightarrow> db \<Rightarrow> js_error + (cart_item \<times> product_row) list" where
  "cartItem_findMany userId d =
     include_product (product_rows d) (filter (\<lambda>c. ci_userId c = userId) (cartItem_rows d))"

definition discount_findUnique :: "string \<Rightarrow> db \<Rightarrow> discount_row option" where
  "discount_findUnique code d = find (\<lambda>r. d_code r = code) (discount_rows d)"

text \<open>The id of a new order row: larger than every id in the table.\<close>

definition next_id :: "order_row list \<Rightarrow> nat" where
  "next_id os = Suc (foldr (\<lambda>r m. max (o_id r) m) os 0)"

text \<open>\<open>order.create\<close>. \<open>orderNumber\<close> is a unique column (\<open>getOrderByNumber\<close> looks an
  order up by it with \<open>findUnique\<close>), so a second order with a number in use is refused.\<close>

definition order_create :: "order_row \<Rightarrow> order_row query" where
  "order_create data d =
     (if list_ex (\<lambda>r. o_orderNumber r = o_orderNumber data) (order_rows d)
      then Inl (PrismaError ''Unique constraint failed on the fields: (orderNumber)'')
      else (let newOrder = data\<lparr>o_id := next_id (order_rows d), o_items := []\<rparr>
            in Inr (newOrder, d\<lparr>order_rows := order_rows d @ [newOrder]\<rparr>)))"

definition orderItem_create :: "nat \<Rightarrow> order_item \<Rightarrow> unit query" where
  "orderItem_create orderId item d =
     (if list_ex (\<lambda>r. o_id r = orderId) (order_rows d)
      then Inr ((), d\<lparr>order_rows := map (\<lambda>r. if o_id r = orderId
                                            then r\<lparr>o_items := o_items r @ [item]\<rparr> else r)
                                     (order_rows d)\<rparr>)
      else Inl (PrismaError ''Foreign key constraint failed on the field: orderId''))"

text \<open>\<open>product.update({where: {id}, data: {stockQuantity: {decrement: n}}})\<close> and its
  \<open>increment\<close> twin; \<open>update\<close> throws when no row has the id.\<close>

definition product_update_decrement :: "nat \<Rightarrow> int \<Rightarrow> unit query" where
  "product_update_decrement productId n d =
     (case product_rows d productId of
        None \<Rightarrow> Inl (PrismaError ''Record to update not found.'')
      | Some p \<Rightarrow>
          Inr ((), d\<lparr>product_rows := (product_rows d)(productId \<mapsto>
                        p\<lparr>p_stockQuantity := p_stockQuantity p - n\<rparr>)\<rparr>))"

definition product_update_increment :: "nat \<Rightarrow> int \<Rightarrow> unit query" where
  "product_update_increment productId n d =
     (case product_rows d productId of
        None \<Rightarrow> Inl (PrismaError ''Record to update not found.'')
      | Some p \<Rightarrow>
          Inr ((), d\<lparr>product_rows := (product_rows d)(productId \<mapsto>
                        p\<lparr>p_stockQuantity := p_stockQuantity p + n\<rparr>)\<rparr>))"

definition cartItem_deleteMany :: "nat \<Rightarrow> unit query" where
  "cartItem_deleteMany userId d =
     Inr ((), d\<lparr>cartItem_rows := filter (\<lambda>c. ci_userId c \<noteq> userId) (cartItem_rows d)\<rparr>)"

definition discount_update_increment :: "nat \<Rightarrow> int \<Rightarrow> unit query" where
  "discount_update_increment discountId n d =
     (if list_ex (\<lambda>r. d_id r = discountId) (discount_rows d)
      then Inr ((), d\<lparr>discount_rows := map (\<lambda>r. if d_id r = discountId
                                               then r\<lparr>d_usedCount := d_usedCount r + n\<rparr> else r)
                                        (discount_rows d)\<rparr>)
      else Inl (PrismaError ''Record to update not found.''))"

definition discount_update_decrement :: "nat \<Rightarrow> int \<Rightarrow> unit query" where
  "discount_update_decrement discountId n d =
     (if list_ex (\<lambda>r. d_id r = discountId) (discount_rows d)
      then Inr ((), d\<lparr>discount_rows := map (\<lambda>r. if d_id r = discountId
                                               then r\<lparr>d_usedCount := d_usedCount r - n\<rparr> else r)
                                        (discount_rows d)\<rparr>)
      else Inl (PrismaError ''Record to update not found.''))"

definition order_findUnique :: "nat \<Rightarrow> (order_row option) query" where
  "order_findUnique orderId d = Inr (find (\<lambda>r. o_id r = orderId) (order_rows d), d)"

text \<open>\<open>order.update({where: {id}, data: {status, adminNote}})\<close>.\<close>

definition order_update :: "nat \<Rightarrow> string \<Rightarrow> string option \<Rightarrow> unit query" where
  "order_update orderId status adminNote d =
     (if list_ex (\<lambda>r. o_id r = orderId) (order_rows d)
      then Inr ((), d\<lparr>order_rows := map (\<lambda>r. if o_id r = orderId
                                            then r\<lparr>o_status := status, o_adminNote := adminNote\<rparr>
                                            else r)
                                     (order_rows d)\<rparr>)
      else Inl (PrismaError ''Record to update not found.''))"

text \<open>The queries of \<open>WishlistController.moveToCart\<close>: the wishlist item with its
  product, the cart item of a user and a product (the unique key \<open>userId_productId\<close>),
  and the writes to the cart and the wishlist.\<close>

definition wishlistItem_findUnique ::
    "nat \<Rightarrow> db \<Rightarrow> js_error + (wishlist_item \<times> product_row) option" where
  "wishlistItem_findUnique wishlistItemId d =
     (case find (\<lambda>w. wi_id w = wishlistItemId) (wishlistItem_rows d) of
        None \<Rightarrow> Inr None
      | Some w \<Rightarrow>
          (case product_rows d (wi_productId w) of
             None \<Rightarrow> Inl (PrismaError ''Inconsistent query result: Field product is required'')
           | Some p \<Rightarrow> Inr (Some (w, p))))"

definition cartItem_findUnique :: "nat \<Rightarrow> nat \<Rightarrow> (cart_item option) query" where
  "cartItem_findUnique userId productId d =
     Inr (find (\<lambda>c. ci_userId c = userId \<and> ci_productId c = productId) (cartItem_rows d), d)"

definition next_cartItem_id :: "cart_item list \<Rightarrow> nat" where
  "next_cartItem_id cs = Suc (foldr (\<lambda>c m. max (ci_id c) m) cs 0)"

definition cartItem_update :: "nat \<Rightarrow> int \<Rightarrow> cart_item query" where
  "cartItem_update cartItemId quantity d =
     (case find (\<lambda>c. ci_id c = cartItemId) (cartItem_rows d) of
        None \<Rightarrow> Inl (PrismaError ''Record to update not found.'')
      | Some c \<Rightarrow>
          Inr (c\<lparr>ci_quantity := quantity\<rparr>,
               d\<lparr>cartItem_rows := map (\<lambda>r. if ci_id r = cartItemId
                                              then r\<lparr>ci_quantity := quantity\<rparr> else r)
                                       (cartItem_rows d)\<rparr>))"

definition cartItem_create :: "nat \<Rightarrow> nat \<Rightarrow> int \<Rightarrow> cart_item query" where
  "cartItem_create userId productId quantity d =
     (if list_ex (\<lambda>c. ci_userId c = userId \<and> ci_productId c = productId) (cartItem_rows d)
      then Inl (PrismaError ''Unique constraint failed on the fields: (userId,productId)'')
      else (let cartItem = \<lparr>ci_id = next_cartItem_id (cartItem_rows d), ci_userId = userId,
                              ci_productId = productId, ci_quantity = quantity\<rparr>
            in Inr (cartItem, d\<lparr>cartItem_rows := cartItem_rows d @ [cartItem]\<rparr>)))"

definition wishlistItem_delete :: "nat \<Rightarrow> unit query" where
  "wishlistItem_delete wishlistItemId d =
     (if list_ex (\<lambda>w. wi_id w = wishlistItemId) (wishlistItem_rows d)
      then Inr ((), d\<lparr>wishlistItem_rows :=
                         filter (\<lambda>w. wi_id w \<noteq> wishlistItemId) (wishlistItem_rows d)\<rparr>)
      else Inl (PrismaError ''Record to delete does not exist.''))"

subsection \<open>Interactive transactions\<close>

text \<open>
  The callback of \<open>prisma.$transaction\<close> issues its queries one after the other on the
  transaction client. A query of the transaction may fail for a reason of its own (a missing
  row, a violated constraint) or for one outside the program (the connection, a timeout, a
  deadlock): \<open>fails k\<close> tells whether the \<open>k\<close>-th query of the transaction does. The state of
  a running transaction is the number of queries issued so far and the database as the
  transaction sees it.
\<close>

type_synonym 'a tx = "nat \<times> db \<Rightarrow> js_error + ('a \<times> nat \<times> db)"

definition tx_query :: "(nat \<Rightarrow> bool) \<Rightarrow> 'a query \<Rightarrow> 'a tx" where
  "tx_query fails q = (\<lambda>(k, d).
     if fails k then Inl (PrismaError ''Transaction API error'')
     else (case q d of
             Inl e \<Rightarrow> Inl e
           | Inr (r, d') \<Rightarrow> Inr (r, Suc k, d')))"

definition tx_return :: "'a \<Rightarrow> 'a tx" where
  "tx_return r = (\<lambda>s. Inr (r, s))"

definition tx_bind :: "'a tx \<Rightarrow> ('a \<Rightarrow> 'b tx) \<Rightarrow> 'b tx" where
  "tx_bind m f = (\<lambda>s. case m s of Inl e \<Rightarrow> Inl e | Inr (r, s') \<Rightarrow> f r s')"

text \<open>\<open>prisma.$transaction(callback)\<close>: when the callback throws, the transaction is rolled
  back and the error is thrown on; when it returns, its writes are committed.\<close>

definition transaction :: "'a tx \<Rightarrow> db \<Rightarrow> db \<times> (js_error + 'a)" where
  "transaction body d =
     (case body (0, d) of
        Inl e \<Rightarrow> (d, Inl e)
      | Inr (r, k, d') \<Rightarrow> (d', Inr r))"

section \<open>Checkout: \<open>OrderController.checkout\<close>\<close>

record shipping_info =
  fullName :: string
  phone :: string
  addressLine1 :: string
  addressLine2 :: "string option"
  landmark :: "string option"
  city :: string
  province :: "string option"
  postalCode :: string
  country :: "string option"

record checkout_request =
  shippingInfo :: shipping_info
  paymentMethod :: string
  transactionNumber :: "string option"
  customerNote :: "string option"
  discountCode :: "string option"

text \<open>What a request handler reads from outside the database: the clock, the order number
  that \<open>generateOrderNumber\<close> returns (it only reads the order table and the clock), and
  the failures of the transaction's queries.\<close>

record env =
  env_now :: int
  env_orderNumber :: string
  env_fails :: "nat \<Rightarrow> bool"

text \<open>The checks of the request body, in the order of the source. A string is falsy when
  it is empty.\<close>

definition checkout_validate :: "checkout_request \<Rightarrow> js_error option" where
  "checkout_validate req =
     (let info = shippingInfo req in
      if fullName info = [] \<or> phone info = [] \<or> addressLine1 info = [] \<or> city info = [] \<or>
         postalCode info = []
      then Some (BadRequestError
                   (Some ''Full name, phone, address, city, and postal code are required'') None)
      else if paymentMethod req = []
      then Some (BadRequestError (Some ''Payment method is required'') None)
      else if paymentMethod req \<notin> set PAYMENT_METHODS
      then Some (BadRequestError
                   (Some (''Invalid payment method. Must be one of: '' @
                          join '', '' PAYMENT_METHODS)) None)
      else if requiresTransactionNumber (paymentMethod req) \<and>
              (case transactionNumber req of None \<Rightarrow> True | Some t \<Rightarrow> t = [] \<or> trim t = [])
      then Some (BadRequestError
                   (Some ''Transaction number is required for online payments (eSewa, Khalti, Bank Transfer)'')
                   None)
      else None)"

text \<open>The loop that validates stock availability: the first cart item that fails a check
  throws.\<close>

fun validate_stock :: "(cart_item \<times> product_row) list \<Rightarrow> js_error option" where
  "validate_stock [] = None"
| "validate_stock ((item, product) # rest) =
     (if \<not> p_isActive product
      then Some (BadRequestError
                   (Some (''Product '' @ [CHR 0x22] @ p_name product @ [CHR 0x22] @
                          '' is no longer available'')) None)
      else if p_stockQuantity product < ci_quantity item
      then Some (BadRequestError
                   (Some (''Insufficient stock for '' @ [CHR 0x22] @ p_name product @
                          [CHR 0x22] @ ''. Only '' @ string_of_int (p_stockQuantity product) @
                          '' available.'')) None)
      else validate_stock rest)"

definition checkout_subtotal :: "(cart_item \<times> product_row) list \<Rightarrow> rat" where
  "checkout_subtotal cartItems =
     foldl (\<lambda>subtotal (item, product). subtotal + p_price product * of_int (ci_quantity item))
       0 cartItems"

text \<open>The shipping cost as \<open>checkout\<close> computes it, with its own copy of the city list.\<close>

definition checkout_shippingCost :: "string \<Rightarrow> rat \<Rightarrow> rat" where
  "checkout_shippingCost shippingCity subtotal =
     (if subtotal \<ge> FREE_SHIPPING_THRESHOLD then 0
      else (let city = trim (toLowerCase shippingCity);
                valleyCities = [''kathmandu'', ''lalitpur'', ''bhaktapur'', ''kirtipur'',
                                ''madhyapur thimi'', ''thimi''];
                isInsideValley = list_ex (\<lambda>valleyCity. str_includes city valleyCity \<or>
                                                          str_includes valleyCity city)
                                   valleyCities
            in if isInsideValley then INSIDE_VALLEY else OUTSIDE_VALLEY))"

text \<open>
  The validity test of a discount row. \<open>usageLimit\<close> is a nullable integer: the test
  \<open>!discountRecord.usageLimit\<close> holds for \<open>null\<close> and for \<open>0\<close>. \<open>minPurchaseAmount\<close> and
  \<open>maxDiscountAmount\<close> are nullable decimals, objects of the ORM client: they are falsy
  only when \<open>null\<close>.
\<close>

definition checkout_isValid :: "int \<Rightarrow> rat \<Rightarrow> discount_row \<Rightarrow> bool" where
  "checkout_isValid now subtotal discountRecord =
     (d_isActive discountRecord \<and>
      now \<ge> d_startDate discountRecord \<and>
      now \<le> d_endDate discountRecord \<and>
      (case d_usageLimit discountRecord of
         None \<Rightarrow> True
       | Some usageLimit \<Rightarrow> usageLimit = 0 \<or> d_usedCount discountRecord < usageLimit) \<and>
      (case d_minPurchaseAmount discountRecord of
         None \<Rightarrow> True
       | Some minPurchaseAmount \<Rightarrow> subtotal \<ge> minPurchaseAmount))"

definition checkout_discountAmount :: "rat \<Rightarrow> discount_row \<Rightarrow> rat" where
  "checkout_discountAmount subtotal discountRecord =
     (let discount = (if d_type discountRecord = ''percentage''
                      then (subtotal * d_value discountRecord) / 100
                      else d_value discountRecord);
          capped = (case d_maxDiscountAmount discountRecord of
                      None \<Rightarrow> discount
                    | Some maxDiscountAmount \<Rightarrow>
                        if discount > maxDiscountAmount then maxDiscountAmount else discount)
      in if capped > subtotal then subtotal else capped)"

text \<open>The three variables \<open>discount\<close>, \<open>discountId\<close> and \<open>discountCodeUsed\<close> after the
  block that applies the discount code.\<close>

definition checkout_applyDiscount ::
    "int \<Rightarrow> rat \<Rightarrow> string option \<Rightarrow> db \<Rightarrow> rat \<times> nat option \<times> string option" where
  "checkout_applyDiscount now subtotal code d =
     (case code of
        None \<Rightarrow> (0, None, None)
      | Some c \<Rightarrow>
          if c = [] then (0, None, None)
          else (case discount_findUnique (toUpperCase c) d of
                  None \<Rightarrow> (0, None, None)
                | Some discountRecord \<Rightarrow>
                    if checkout_isValid now subtotal discountRecord
                    then (checkout_discountAmount subtotal discountRecord,
                          Some (d_id discountRecord), Some (d_code discountRecord))
                    else (0, None, None)))"

text \<open>The order item created for a cart item: a snapshot of the product at the time of
  the order.\<close>

definition checkout_orderItem :: "cart_item \<times> product_row \<Rightarrow> order_item" where
  "checkout_orderItem = (\<lambda>(item, product).
     \<lparr>oi_productId = ci_productId item,
      oi_productName = p_name product,
      oi_productSku = p_sku product,
      oi_productImage = p_primaryImage product,
      oi_price = p_price product,
      oi_quantity = ci_quantity item,
      oi_subtotal = p_price product * of_int (ci_quantity item)\<rparr>)"

text \<open>The order item and the stock update of each cart item, in the transaction.\<close>

fun checkout_items :: "(nat \<Rightarrow> bool) \<Rightarrow> nat \<Rightarrow> (cart_item \<times> product_row) list \<Rightarrow> unit tx" where
  "checkout_items fails orderId [] = tx_return ()"
| "checkout_items fails orderId ((item, product) # rest) =
     tx_bind (tx_query fails (orderItem_create orderId (checkout_orderItem (item, product))))
       (\<lambda>_. tx_bind (tx_query fails (product_update_decrement (ci_productId item)
                                        (ci_quantity item)))
          (\<lambda>_. checkout_items fails orderId rest))"

text \<open>The callback of the checkout transaction. \<open>if (discountId)\<close> is false for \<open>null\<close>
  and for the id \<open>0\<close>.\<close>

definition checkout_tx ::
    "(nat \<Rightarrow> bool) \<Rightarrow> order_row \<Rightarrow> (cart_item \<times> product_row) list \<Rightarrow> nat \<Rightarrow> nat option
     \<Rightarrow> (order_row option) tx" where
  "checkout_tx fails data cartItems userId discountId =
     tx_bind (tx_query fails (order_create data))
       (\<lambda>newOrder. tx_bind (checkout_items fails (o_id newOrder) cartItems)
          (\<lambda>_. tx_bind (tx_query fails (cartItem_deleteMany userId))
             (\<lambda>_. tx_bind (case discountId of
                              None \<Rightarrow> tx_return ()
                            | Some i \<Rightarrow> if i = 0 then tx_return ()
                                        else tx_query fails (discount_update_increment i 1))
                (\<lambda>_. tx_query fails (order_findUnique (o_id newOrder))))))"

text \<open>The \<open>data\<close> of \<open>order.create\<close>. The id is assigned by the database.\<close>

definition checkout_orderData ::
    "string \<Rightarrow> nat \<Rightarrow> checkout_request \<Rightarrow> rat \<Rightarrow> rat \<Rightarrow> rat \<Rightarrow> rat \<Rightarrow> rat \<Rightarrow> nat option
     \<Rightarrow> string option \<Rightarrow> order_row" where
  "checkout_orderData orderNumber userId req subtotal shippingCost tax discount total' discountId
       discountCodeUsed =
     (let info = shippingInfo req in
      \<lparr>o_id = 0,
       o_orderNumber = orderNumber,
       o_userId = userId,
       o_status = ''pending'',
       o_subtotal = subtotal,
       o_shippingCost = shippingCost,
       o_tax = tax,
       o_discount = discount,
       o_total = total',
       o_shippingFullName = fullName info,
       o_shippingPhone = phone info,
       o_shippingAddressLine1 = addressLine1 info,
       o_shippingAddressLine2 = addressLine2 info,
       o_shippingLandmark = landmark info,
       o_shippingCity = city info,
       o_shippingProvince = province info,
       o_shippingPostalCode = postalCode info,
       o_shippingCountry = (case country info of
                              None \<Rightarrow> ''Nepal''
                            | Some c \<Rightarrow> if c = [] then ''Nepal'' else c),
       o_paymentMethod = paymentMethod req,
       o_paymentStatus = ''pending'',
       o_transactionNumber = (if paymentMethod req = COD then None else transactionNumber req),
       o_discountId = discountId,
       o_discountCode = discountCodeUsed,
       o_customerNote = customerNote req,
       o_adminNote = None,
       o_items = []\<rparr>)"

text \<open>The handler: the database after the request, and the error passed to \<open>next\<close> or the
  order sent with status 201.\<close>

definition checkout ::
    "env \<Rightarrow> nat \<Rightarrow> checkout_request \<Rightarrow> db \<Rightarrow> db \<times> (js_error + order_row option)" where
  "checkout e userId req d =
     (case checkout_validate req of
        Some err \<Rightarrow> (d, Inl err)
      | None \<Rightarrow>
          (case cartItem_findMany userId d of
             Inl err \<Rightarrow> (d, Inl err)
           | Inr cartItems \<Rightarrow>
               if cartItems = []
               then (d, Inl (BadRequestError (Some ''Cart is empty. Add items before checkout.'')
                               None))
               else (case validate_stock cartItems of
                       Some err \<Rightarrow> (d, Inl err)
                     | None \<Rightarrow>
                         (let subtotal = checkout_subtotal cartItems;
                              shippingCost = checkout_shippingCost (city (shippingInfo req))
                                               subtotal;
                              (discount, discountId, discountCodeUsed) =
                                 checkout_applyDiscount (env_now e) subtotal (discountCode req) d;
                              tax = 0;
                              total = subtotal + shippingCost + tax - discount
                          in transaction
                               (checkout_tx (env_fails e)
                                  (checkout_orderData (env_orderNumber e) userId req subtotal
                                     shippingCost tax discount total discountId discountCodeUsed)
                                  cartItems userId discountId)
                               d))))"

section \<open>Order status: \<open>OrderController.updateOrderStatus\<close>\<close>

record update_order_status_request =
  uos_status :: string
  uos_adminNote :: "string option"

definition validStatuses :: "string list" where
  "validStatuses =
     [''pending'', ''confirmed'', ''processing'', ''shipped'', ''delivered'', ''cancelled'']"

text \<open>\<open>adminNote || existingOrder.adminNote\<close>.\<close>

definition adminNote_or :: "string option \<Rightarrow> string option \<Rightarrow> string option" where
  "adminNote_or adminNote existing =
     (case adminNote of
        None \<Rightarrow> existing
      | Some n \<Rightarrow> if n = [] then existing else Some n)"

fun restore_stock :: "(nat \<Rightarrow> bool) \<Rightarrow> order_item list \<Rightarrow> unit tx" where
  "restore_stock fails [] = tx_return ()"
| "restore_stock fails (item # rest) =
     tx_bind (tx_query fails (product_update_increment (oi_productId item) (oi_quantity item)))
       (\<lambda>_. restore_stock fails rest)"

text \<open>The callback of the cancellation transaction.\<close>

definition cancel_tx ::
    "(nat \<Rightarrow> bool) \<Rightarrow> order_row \<Rightarrow> nat \<Rightarrow> string \<Rightarrow> string option \<Rightarrow> unit tx" where
  "cancel_tx fails existingOrder orderId status adminNote =
     tx_bind (restore_stock fails (o_items existingOrder))
       (\<lambda>_. tx_bind (case o_discountId existingOrder of
                        None \<Rightarrow> tx_return ()
                      | Some i \<Rightarrow> if i = 0 then tx_return ()
                                  else tx_query fails (discount_update_decrement i 1))
          (\<lambda>_. tx_query fails (order_update orderId status adminNote)))"

definition updateOrderStatus ::
    "(nat \<Rightarrow> bool) \<Rightarrow> nat \<Rightarrow> update_order_status_request \<Rightarrow> db
     \<Rightarrow> db \<times> (js_error + order_row option)" where
  "updateOrderStatus fails orderId req d =
     (let status = uos_status req; adminNote = uos_adminNote req in
      if status = [] then (d, Inl (BadRequestError (Some ''Status is required'') None))
      else if status \<notin> set validStatuses
      then (d, Inl (BadRequestError
                      (Some (''Invalid status. Must be one of: '' @ join '', '' validStatuses))
                      None))
      else (case find (\<lambda>r. o_id r = orderId) (order_rows d) of
              None \<Rightarrow> (d, Inl (NotFoundError (Some ''Order not found'')))
            | Some existingOrder \<Rightarrow>
                if o_status existingOrder = ''cancelled'' \<and> status = ''cancelled''
                then (d, Inl (BadRequestError (Some ''Order is already cancelled'') None))
                else (let newNote = adminNote_or adminNote (o_adminNote existingOrder);
                          (d', r) =
                            (if status = ''cancelled'' \<and> o_status existingOrder \<noteq> ''cancelled''
                             then transaction (cancel_tx fails existingOrder orderId status newNote) d
                             else (case order_update orderId status newNote d of
                                     Inl err \<Rightarrow> (d, Inl err)
                                   | Inr (u, d1) \<Rightarrow> (d1, Inr u)))
                      in (case r of
                            Inl err \<Rightarrow> (d', Inl err)
                          | Inr u \<Rightarrow> (d', Inr (find (\<lambda>r. o_id r = orderId) (order_rows d')))))))"

section \<open>Wishlist: \<open>WishlistController.moveToCart\<close>\<close>

text \<open>
  The handler moves a wishlist item to the cart with the quantity of the request body
  (1 when the body has none). It compares the quantity with the stock and does not compare
  it with 1, as \<open>addToCart\<close> and \<open>updateCartItem\<close> do.
\<close>

definition moveToCart_tx ::
    "(nat \<Rightarrow> bool) \<Rightarrow> nat \<Rightarrow> wishlist_item \<Rightarrow> int \<Rightarrow> cart_item tx" where
  "moveToCart_tx fails userId wishlistItem quantity =
     tx_bind (tx_query fails (cartItem_findUnique userId (wi_productId wishlistItem)))
       (\<lambda>existingCartItem.
          tx_bind (case existingCartItem of
                     Some existing \<Rightarrow>
                       tx_query fails (cartItem_update (ci_id existing)
                                         (ci_quantity existing + quantity))
                   | None \<Rightarrow>
                       tx_query fails (cartItem_create userId (wi_productId wishlistItem)
                                         quantity))
            (\<lambda>cartItem. tx_bind (tx_query fails (wishlistItem_delete (wi_id wishlistItem)))
               (\<lambda>_. tx_return cartItem)))"

definition moveToCart ::
    "(nat \<Rightarrow> bool) \<Rightarrow> nat \<Rightarrow> nat \<Rightarrow> int option \<Rightarrow> db \<Rightarrow> db \<times> (js_error + cart_item)" where
  "moveToCart fails userId wishlistItemId body_quantity d =
     (let quantity = (case body_quantity of None \<Rightarrow> 1 | Some q \<Rightarrow> q) in
      case wishlistItem_findUnique wishlistItemId d of
        Inl err \<Rightarrow> (d, Inl err)
      | Inr None \<Rightarrow> (d, Inl (NotFoundError (Some ''Wishlist item not found'')))
      | Inr (Some (wishlistItem, product)) \<Rightarrow>
          if wi_userId wishlistItem \<noteq> userId
          then (d, Inl (NotFoundError (Some ''Wishlist item not found'')))
          else if p_stockQuantity product < quantity
          then (d, Inl (BadRequestError (Some ''Product out of stock'') None))
          else transaction (moveToCart_tx fails userId wishlistItem quantity) d)"

section \<open>Discount codes: \<open>DiscountController.validateCode\<close>\<close>







section \<open>Sequences of requests\<close>

datatype request =
    Checkout env nat checkout_request
  | UpdateOrderStatus "nat \<Rightarrow> bool" nat update_order_status_request

fun handle :: "request \<Rightarrow> db \<Rightarrow> db" where
  "handle (Checkout e userId req) d = fst (checkout e userId req d)"
| "handle (UpdateOrderStatus fails orderId req) d = fst (updateOrderStatus fails orderId req d)"

definition run :: "request list \<Rightarrow> db \<Rightarrow> db" where
  "run rs d = foldl (\<lambda>d r. handle r d) d rs"

section \<open>Quantities used in the statements\<close>

text \<open>The total quantity of a product in a list of cart items, and in the items of an
  order.\<close>

definition cart_quantity :: "nat \<Rightarrow> (cart_item \<times> product_row) list \<Rightarrow> int" where
  "cart_quantity productId cartItems =
     sum_list (map (\<lambda>(item, product). ci_quantity item)
                 (filter (\<lambda>(item, product). ci_productId item = productId) cartItems))"

definition item_quantity :: "nat \<Rightarrow> order_item list \<Rightarrow> int" where
  "item_quantity productId items =
     sum_list (map oi_quantity (filter (\<lambda>item. oi_productId item = productId) items))"

section \<open>Example data\<close>

definition ex_serum :: product_row where
  "ex_serum = \<lparr>p_name = ''Serum'', p_sku = None, p_price = 3333 / 100, p_stockQuantity = 5,
     p_lowStockThreshold = 5, p_isActive = True, p_primaryImage = None\<rparr>"

definition ex_cream :: product_row where
  "ex_cream = \<lparr>p_name = ''Cream'', p_sku = Some ''C1'', p_price = 450, p_stockQuantity = 10,
     p_lowStockThreshold = 5, p_isActive = True, p_primaryImage = None\<rparr>"

definition ex_save10 :: discount_row where
  "ex_save10 = \<lparr>d_id = 1, d_name = ''Ten percent'', d_code = ''SAVE10'', d_type = ''percentage'',
     d_value = 10, d_minPurchaseAmount = None, d_maxDiscountAmount = Some 50, d_startDate = 0,
     d_endDate = 100, d_isActive = True, d_usageLimit = Some 100, d_usedCount = 3\<rparr>"

definition ex_flat5 :: discount_row where
  "ex_flat5 = \<lparr>d_id = 2, d_name = ''Five off'', d_code = ''FLAT5'', d_type = ''fixed'',
     d_value = 5, d_minPurchaseAmount = None, d_maxDiscountAmount = None, d_startDate = 0,
     d_endDate = 100, d_isActive = True, d_usageLimit = Some 0, d_usedCount = 0\<rparr>"

definition ex_old :: discount_row where
  "ex_old = \<lparr>d_id = 3, d_name = ''Last year'', d_code = ''OLD'', d_type = ''fixed'',
     d_value = 20, d_minPurchaseAmount = None, d_maxDiscountAmount = None, d_startDate = 0,
     d_endDate = 10, d_isActive = True, d_usageLimit = None, d_usedCount = 0\<rparr>"

definition ex_db :: db where
  "ex_db = \<lparr>product_rows = [1 \<mapsto> ex_serum, 2 \<mapsto> ex_cream],
     cartItem_rows = [\<lparr>ci_id = 1, ci_userId = 7, ci_productId = 1, ci_quantity = 1\<rparr>,
                      \<lparr>ci_id = 2, ci_userId = 7, ci_productId = 2, ci_quantity = 2\<rparr>,
                      \<lparr>ci_id = 3, ci_userId = 8, ci_productId = 2, ci_quantity = 5\<rparr>,
                      \<lparr>ci_id = 4, ci_userId = 9, ci_productId = 1, ci_quantity = 6\<rparr>],
     discount_rows = [ex_save10, ex_flat5, ex_old],
     order_rows = [],
     wishlistItem_rows = [\<lparr>wi_id = 1, wi_userId = 10, wi_productId = 1\<rparr>]\<rparr>"

definition ex_info :: shipping_info where
  "ex_info = \<lparr>fullName = ''Asha'', phone = ''9800000000'', addressLine1 = ''Ward 4'',
     addressLine2 = None, landmark = None, city = '' Kathmandu '', province = None,
     postalCode = ''44600'', country = None\<rparr>"

definition ex_req :: checkout_request where
  "ex_req = \<lparr>shippingInfo = ex_info, paymentMethod = ''cod'', transactionNumber = None,
     customerNote = None, discountCode = Some ''save10''\<rparr>"

definition ex_env :: env where
  "ex_env = \<lparr>env_now = 50, env_orderNumber = ''ORD-2026-001'', env_fails = (\<lambda>k. False)\<rparr>"

definition ex_order :: order_row where
  "ex_order = \<lparr>o_id = 1, o_orderNumber = ''ORD-2026-001'', o_userId = 7, o_status = ''pending'',
     o_subtotal = 93333 / 100, o_shippingCost = 100, o_tax = 0, o_discount = 50,
     o_total = 98333 / 100, o_shippingFullName = ''Asha'', o_shippingPhone = ''9800000000'',
     o_shippingAddressLine1 = ''Ward 4'', o_shippingAddressLine2 = None,
     o_shippingLandmark = None, o_shippingCity = '' Kathmandu '', o_shippingProvince = None,
     o_shippingPostalCode = ''44600'', o_shippingCountry = ''Nepal'', o_paymentMethod = ''cod'',
     o_paymentStatus = ''pending'', o_transactionNumber = None, o_discountId = Some 1,
     o_discountCode = Some ''SAVE10'', o_customerNote = None, o_adminNote = None,
     o_items = [\<lparr>oi_productId = 1, oi_productName = ''Serum'', oi_productSku = None,
                  oi_productImage = None, oi_price = 3333 / 100, oi_quantity = 1,
                  oi_subtotal = 3333 / 100\<rparr>,
                \<lparr>oi_productId = 2, oi_productName = ''Cream'', oi_productSku = Some ''C1'',
                  oi_productImage = None, oi_price = 450, oi_quantity = 2, oi_subtotal = 900\<rparr>]\<rparr>"



section \<open>The discount rule in the words of the specification\<close>







definition ex_env_failing :: env where
  "ex_env_failing = ex_env\<lparr>env_fails := (\<lambda>k. k = 3)\<rparr>"

definition ex_cancel :: update_order_status_request where
  "ex_cancel = \<lparr>uos_status = ''cancelled'', uos_adminNote = None\<rparr>"

section \<open>Invariants of the database\<close>

text \<open>No product has a negative stock quantity.\<close>

definition stock_nonnegative :: "db \<Rightarrow> bool" where
  "stock_nonnegative d = (\<forall>pid p. product_rows d pid = Some p \<longrightarrow> 0 \<le> p_stockQuantity p)"

text \<open>
  The cart table has the unique key \<open>userId_productId\<close> (\<open>addToCart\<close> looks a cart item
  up by it). \<open>addToCart\<close> and \<open>updateCartItem\<close> store quantities of at least 1 only;
  \<open>moveToCart\<close> stores the quantity it is sent. The items of an order are copies of cart
  items.
\<close>

definition cart_well_formed :: "db \<Rightarrow> bool" where
  "cart_well_formed d =
     (distinct (map (\<lambda>c. (ci_userId c, ci_productId c)) (cartItem_rows d)) \<and>
      (\<forall>c \<in> set (cartItem_rows d). 1 \<le> ci_quantity c))"

definition orders_well_formed :: "db \<Rightarrow> bool" where
  "orders_well_formed d =
     (\<forall>r \<in> set (order_rows d). \<forall>item \<in> set (o_items r). 1 \<le> oi_quantity item)"

definition ex_req_cream :: checkout_request where
  "ex_req_cream = ex_req\<lparr>discountCode := None\<rparr>"

definition ex_requests :: "request list" where
  "ex_requests =
     [Checkout ex_env 7 ex_req,
      Checkout (ex_env\<lparr>env_orderNumber := ''ORD-2026-002''\<rparr>) 8 ex_req_cream,
      UpdateOrderStatus (\<lambda>k. False) 1 ex_cancel,
      UpdateOrderStatus (\<lambda>k. False) 2 ex_cancel]"

text \<open>User 10 moves the wishlist item of the serum to the cart with the quantity \<open>- 1\<close>;
  then user 10 and user 9 check out, and the order of user 10 is cancelled.\<close>

definition ex_db_moved :: db where
  "ex_db_moved = fst (moveToCart (\<lambda>k. False) 10 1 (Some (- 1)) ex_db)"

definition ex_oversell :: "request list" where
  "ex_oversell =
     [Checkout ex_env 10 ex_req_cream,
      Checkout (ex_env\<lparr>env_orderNumber := ''ORD-2026-002''\<rparr>) 9 ex_req_cream,
      UpdateOrderStatus (\<lambda>k. False) 1 ex_cancel]"

section \<open>Basic facts\<close>



lemma next_id_fresh: "r \<in> set os \<Longrightarrow> o_id r < next_id os"
  unfolding next_id_def by (induction os) auto

lemma find_fresh: "find (\<lambda>r. o_id r = next_id os) os = None"
  using next_id_fresh by (fastforce simp: find_None_iff)

lemma cart_quantity_Nil: "cart_quantity pid [] = 0"
  by (simp add: cart_quantity_def)

lemma cart_quantity_Cons:
  "cart_quantity pid ((item, product) # rest) =
     (if ci_productId item = pid then ci_quantity item else 0) + cart_quantity pid rest"
  by (simp add: cart_quantity_def)

lemma item_quantity_Nil: "item_quantity pid [] = 0"
  by (simp add: item_quantity_def)

lemma item_quantity_Cons:
  "item_quantity pid (item # rest) =
     (if oi_productId item = pid then oi_quantity item else 0) + item_quantity pid rest"
  by (simp add: item_quantity_def)

subsection \<open>Successful runs of a transaction\<close>

lemma tx_query_Inr:
  "tx_query fails q (k, d) = Inr (r, k', d') \<longleftrightarrow> \<not> fails k \<and> q d = Inr (r, d') \<and> k' = Suc k"
  by (auto simp: tx_query_def split: sum.splits)

lemma tx_bind_Inr:
  "tx_bind m f s = Inr res \<longleftrightarrow> (\<exists>r s'. m s = Inr (r, s') \<and> f r s' = Inr res)"
  by (auto simp: tx_bind_def split: sum.splits)

lemma tx_return_Inr: "tx_return r s = Inr res \<longleftrightarrow> res = (r, s)"
  by (auto simp: tx_return_def)

text \<open>What the loop over the cart items has written when it returns.\<close>

lemma checkout_items_Inr:
  "checkout_items fails oid items (k, d) = Inr (u, k', d') \<Longrightarrow>
     product_rows d' =
       (\<lambda>pid. map_option
                 (\<lambda>p. p\<lparr>p_stockQuantity := p_stockQuantity p - cart_quantity pid items\<rparr>)
                 (product_rows d pid)) \<and>
     order_rows d' =
       map (\<lambda>r. if o_id r = oid
                 then r\<lparr>o_items := o_items r @ map checkout_orderItem items\<rparr> else r)
         (order_rows d) \<and>
     cartItem_rows d' = cartItem_rows d \<and>
     discount_rows d' = discount_rows d"
proof (induction items arbitrary: k d)
  case Nil
  then have "d' = d" by (simp add: tx_return_Inr)
  then show ?case
    by (auto simp: cart_quantity_Nil option.map_ident intro!: map_idI[symmetric])
next
  case (Cons a items)
  obtain item product where a: "a = (item, product)" by (cases a)
  from Cons.prems obtain d1 d2 p where
    d1: "d1 = d\<lparr>order_rows :=
              map (\<lambda>r. if o_id r = oid
                        then r\<lparr>o_items := o_items r @ [checkout_orderItem (item, product)]\<rparr>
                        else r) (order_rows d)\<rparr>"
    and p: "product_rows d (ci_productId item) = Some p"
    and d2: "d2 = d1\<lparr>product_rows := (product_rows d1)(ci_productId item \<mapsto>
                      p\<lparr>p_stockQuantity := p_stockQuantity p - ci_quantity item\<rparr>)\<rparr>"
    and rest: "checkout_items fails oid items (Suc (Suc k), d2) = Inr (u, k', d')"
    by (auto simp: a tx_bind_Inr tx_query_Inr orderItem_create_def product_update_decrement_def
        split: if_splits option.splits)
  note IH = Cons.IH[OF rest]
  have "product_rows d' =
      (\<lambda>pid. map_option
                (\<lambda>p. p\<lparr>p_stockQuantity := p_stockQuantity p - cart_quantity pid (a # items)\<rparr>)
                (product_rows d pid))"
    unfolding conjunct1[OF IH]
    by (rule ext) (auto simp: d2 d1 p a cart_quantity_Cons)
  moreover have "order_rows d' =
      map (\<lambda>r. if o_id r = oid
                then r\<lparr>o_items := o_items r @ map checkout_orderItem (a # items)\<rparr> else r)
        (order_rows d)"
    unfolding conjunct1[OF conjunct2[OF IH]]
    by (auto simp: d2 d1 a)
  moreover have "cartItem_rows d' = cartItem_rows d"
    using IH by (simp add: d2 d1)
  moreover have "discount_rows d' = discount_rows d"
    using IH by (simp add: d2 d1)
  ultimately show ?case by simp
qed

lemma restore_stock_Inr:
  "restore_stock fails items (k, d) = Inr (u, k', d') \<Longrightarrow>
     product_rows d' =
       (\<lambda>pid. map_option
                 (\<lambda>p. p\<lparr>p_stockQuantity := p_stockQuantity p + item_quantity pid items\<rparr>)
                 (product_rows d pid)) \<and>
     order_rows d' = order_rows d \<and>
     cartItem_rows d' = cartItem_rows d \<and>
     discount_rows d' = discount_rows d"
proof (induction items arbitrary: k d)
  case Nil
  then have "d' = d" by (simp add: tx_return_Inr)
  then show ?case by (auto simp: item_quantity_Nil option.map_ident)
next
  case (Cons item items)
  from Cons.prems obtain d1 p where
    p: "product_rows d (oi_productId item) = Some p"
    and d1: "d1 = d\<lparr>product_rows := (product_rows d)(oi_productId item \<mapsto>
                      p\<lparr>p_stockQuantity := p_stockQuantity p + oi_quantity item\<rparr>)\<rparr>"
    and rest: "restore_stock fails items (Suc k, d1) = Inr (u, k', d')"
    by (auto simp: tx_bind_Inr tx_query_Inr product_update_increment_def split: option.splits)
  note IH = Cons.IH[OF rest]
  have "product_rows d' =
      (\<lambda>pid. map_option
                (\<lambda>p. p\<lparr>p_stockQuantity := p_stockQuantity p + item_quantity pid (item # items)\<rparr>)
                (product_rows d pid))"
    unfolding conjunct1[OF IH]
    by (rule ext) (auto simp: d1 p item_quantity_Cons)
  then show ?case using IH by (simp add: d1)
qed

lemma map_fresh_order:
  "map (\<lambda>r. if o_id r = next_id os then f r else r) (os @ [new\<lparr>o_id := next_id os\<rparr>]) =
     os @ [f (new\<lparr>o_id := next_id os\<rparr>)]"
proof -
  have "map (\<lambda>r. if o_id r = next_id os then f r else r) os = os"
    using next_id_fresh by (intro map_idI) fastforce
  then show ?thesis by simp
qed

lemma find_snoc:
  "find P (xs @ [x]) = (case find P xs of None \<Rightarrow> if P x then Some x else None | Some y \<Rightarrow> Some y)"
  by (induction xs) auto

lemma find_fresh_order:
  "o_id new = next_id os \<Longrightarrow> find (\<lambda>r. o_id r = next_id os) (os @ [new]) = Some new"
  using find_fresh[of os] by (simp add: find_snoc)

lemma checkout_tx_Inr:
  assumes "checkout_tx fails data items userId discountId (0, d) = Inr (res, k', d')"
  defines "new \<equiv> data\<lparr>o_id := next_id (order_rows d), o_items := map checkout_orderItem items\<rparr>"
  shows "res = Some new \<and>
         order_rows d' = order_rows d @ [new] \<and>
         product_rows d' =
           (\<lambda>pid. map_option
                     (\<lambda>p. p\<lparr>p_stockQuantity := p_stockQuantity p - cart_quantity pid items\<rparr>)
                     (product_rows d pid)) \<and>
         cartItem_rows d' = filter (\<lambda>c. ci_userId c \<noteq> userId) (cartItem_rows d) \<and>
         discount_rows d' =
           (case discountId of
              None \<Rightarrow> discount_rows d
            | Some i \<Rightarrow> if i = 0 then discount_rows d
                        else map (\<lambda>r. if d_id r = i then r\<lparr>d_usedCount := d_usedCount r + 1\<rparr> else r)
                               (discount_rows d))"
proof -
  let ?nid = "next_id (order_rows d)"
  let ?new0 = "data\<lparr>o_id := ?nid, o_items := []\<rparr>"
  from assms(1) obtain d1 k2 d2 d3 k4 d4 where
    d1: "d1 = d\<lparr>order_rows := order_rows d @ [?new0]\<rparr>"
    and items: "checkout_items fails ?nid items (Suc 0, d1) = Inr ((), k2, d2)"
    and d3: "d3 = d2\<lparr>cartItem_rows := filter (\<lambda>c. ci_userId c \<noteq> userId) (cartItem_rows d2)\<rparr>"
    and disc: "(case discountId of None \<Rightarrow> tx_return ()
               | Some i \<Rightarrow> if i = 0 then tx_return () else tx_query fails (discount_update_increment i 1))
                 (Suc k2, d3) = Inr ((), k4, d4)"
    and res: "res = find (\<lambda>r. o_id r = ?nid) (order_rows d4)" and d': "d' = d4"
    unfolding checkout_tx_def
    by (auto simp: tx_bind_Inr tx_query_Inr order_create_def cartItem_deleteMany_def
        order_findUnique_def Let_def split: if_splits)
  note I = checkout_items_Inr[OF items]
  have o2: "order_rows d2 = order_rows d @ [new]"
  proof -
    have "order_rows d2 = map (\<lambda>r. if o_id r = ?nid then r\<lparr>o_items := o_items r @ map checkout_orderItem items\<rparr> else r) (order_rows d @ [(data\<lparr>o_items := []\<rparr>)\<lparr>o_id := ?nid\<rparr>])"
      using I by (simp add: d1)
    also have "\<dots> = order_rows d @ [((data\<lparr>o_items := []\<rparr>)\<lparr>o_id := ?nid\<rparr>)\<lparr>o_items := o_items ((data\<lparr>o_items := []\<rparr>)\<lparr>o_id := ?nid\<rparr>) @ map checkout_orderItem items\<rparr>]"
      by (rule map_fresh_order)
    finally show ?thesis by (simp add: new_def)
  qed
  have d4: "order_rows d4 = order_rows d3 \<and> product_rows d4 = product_rows d3 \<and> cartItem_rows d4 = cartItem_rows d3 \<and>
     discount_rows d4 = (case discountId of
              None \<Rightarrow> discount_rows d3
            | Some i \<Rightarrow> if i = 0 then discount_rows d3
                        else map (\<lambda>r. if d_id r = i then r\<lparr>d_usedCount := d_usedCount r + 1\<rparr> else r)
                               (discount_rows d3))"
    using disc
    by (auto simp: tx_return_Inr tx_query_Inr discount_update_increment_def split: option.splits if_splits)
  have f3: "discount_rows d3 = discount_rows d" "product_rows d3 = product_rows d2"
    "order_rows d3 = order_rows d2" "cartItem_rows d2 = cartItem_rows d"
    using I by (simp_all add: d3 d1)
  have r: "res = Some new"
    unfolding res using d4 o2 f3 find_fresh_order[of new "order_rows d"] by (simp add: new_def)
  have p: "product_rows d' =
           (\<lambda>pid. map_option
                     (\<lambda>p. p\<lparr>p_stockQuantity := p_stockQuantity p - cart_quantity pid items\<rparr>)
                     (product_rows d pid))"
    using d4 f3 I by (simp add: d' d1)
  have c: "cartItem_rows d' = filter (\<lambda>c. ci_userId c \<noteq> userId) (cartItem_rows d)"
    using d4 f3 by (simp add: d' d3)
  have ds: "discount_rows d' =
           (case discountId of
              None \<Rightarrow> discount_rows d
            | Some i \<Rightarrow> if i = 0 then discount_rows d
                        else map (\<lambda>r. if d_id r = i then r\<lparr>d_usedCount := d_usedCount r + 1\<rparr> else r)
                               (discount_rows d))"
    using d4 f3(1) unfolding d' by (auto split: option.splits)
  have os: "order_rows d' = order_rows d @ [new]"
    using d4 f3 o2 by (simp add: d')
  from r os p c ds show ?thesis by blast
qed

lemma transaction_Inr:
  "snd (transaction body d) = Inr r \<longleftrightarrow> (\<exists>k d'. body (0, d) = Inr (r, k, d'))"
  by (auto simp: transaction_def split: sum.splits)

lemma transaction_fst:
  "body (0, d) = Inr (r, k, d') \<Longrightarrow> fst (transaction body d) = d'"
  by (simp add: transaction_def)

lemma transaction_Inl:
  "snd (transaction body d) = Inl e \<Longrightarrow> fst (transaction body d) = d \<and> body (0, d) = Inl e"
  by (auto simp: transaction_def split: sum.splits)

lemma checkout_Inr:
  assumes "snd (checkout e userId req d) = Inr res"
  shows "\<exists>cartItems discount discountId discountCodeUsed ord.
           checkout_validate req = None \<and>
           cartItem_findMany userId d = Inr cartItems \<and>
           cartItems \<noteq> [] \<and>
           validate_stock cartItems = None \<and>
           checkout_applyDiscount (env_now e) (checkout_subtotal cartItems) (discountCode req) d =
             (discount, discountId, discountCodeUsed) \<and>
           ord = (checkout_orderData (env_orderNumber e) userId req (checkout_subtotal cartItems)
                    (checkout_shippingCost (city (shippingInfo req)) (checkout_subtotal cartItems))
                    0 discount
                    (checkout_subtotal cartItems +
                     checkout_shippingCost (city (shippingInfo req)) (checkout_subtotal cartItems) +
                     0 - discount)
                    discountId discountCodeUsed)
                 \<lparr>o_id := next_id (order_rows d), o_items := map checkout_orderItem cartItems\<rparr> \<and>
           res = Some ord \<and>
           order_rows (fst (checkout e userId req d)) = order_rows d @ [ord] \<and>
           product_rows (fst (checkout e userId req d)) =
             (\<lambda>pid. map_option
                       (\<lambda>p. p\<lparr>p_stockQuantity := p_stockQuantity p - cart_quantity pid cartItems\<rparr>)
                       (product_rows d pid)) \<and>
           cartItem_rows (fst (checkout e userId req d)) =
             filter (\<lambda>c. ci_userId c \<noteq> userId) (cartItem_rows d) \<and>
           discount_rows (fst (checkout e userId req d)) =
             (case discountId of
                None \<Rightarrow> discount_rows d
              | Some i \<Rightarrow> if i = 0 then discount_rows d
                          else map (\<lambda>r. if d_id r = i then r\<lparr>d_usedCount := d_usedCount r + 1\<rparr> else r)
                                 (discount_rows d))"
proof -
  from assms obtain cartItems where
    v: "checkout_validate req = None" and c: "cartItem_findMany userId d = Inr cartItems"
    and ne: "cartItems \<noteq> []" and vs: "validate_stock cartItems = None"
    by (auto simp: checkout_def split: option.splits sum.splits if_splits)
  obtain discount discountId discountCodeUsed where
    a: "checkout_applyDiscount (env_now e) (checkout_subtotal cartItems) (discountCode req) d =
             (discount, discountId, discountCodeUsed)"
    by (cases "checkout_applyDiscount (env_now e) (checkout_subtotal cartItems) (discountCode req) d") auto
  let ?data = "checkout_orderData (env_orderNumber e) userId req (checkout_subtotal cartItems)
                    (checkout_shippingCost (city (shippingInfo req)) (checkout_subtotal cartItems))
                    0 discount
                    (checkout_subtotal cartItems +
                     checkout_shippingCost (city (shippingInfo req)) (checkout_subtotal cartItems) +
                     0 - discount)
                    discountId discountCodeUsed"
  let ?body = "checkout_tx (env_fails e) ?data cartItems userId discountId"
  have eq: "checkout e userId req d = transaction ?body d"
    by (simp add: checkout_def v c ne vs a Let_def)
  with assms obtain k d' where run: "?body (0, d) = Inr (res, k, d')"
    by (auto simp: transaction_Inr)
  have d': "fst (checkout e userId req d) = d'"
    unfolding eq using run by (rule transaction_fst)
  from checkout_tx_Inr[OF run] v c ne vs a show ?thesis
    unfolding d' by blast
qed

subsection \<open>The example\<close>

lemma ex_checkout: "snd (checkout ex_env 7 ex_req ex_db) = Inr (Some ex_order)"
  by code_simp











subsection \<open>Discounts\<close>








subsection \<open>Runs that succeed\<close>

lemma include_product_Inr:
  "include_product ps cs = Inr items \<Longrightarrow>
     map fst items = cs \<and> (\<forall>(c, p) \<in> set items. ps (ci_productId c) = Some p)"
  by (induction cs arbitrary: items) (auto split: option.splits sum.splits)

lemma cartItem_findMany_Inr:
  "cartItem_findMany userId d = Inr items \<Longrightarrow>
     map fst items = filter (\<lambda>c. ci_userId c = userId) (cartItem_rows d) \<and>
     (\<forall>(c, p) \<in> set items. product_rows d (ci_productId c) = Some p)"
  unfolding cartItem_findMany_def by (rule include_product_Inr)


lemma find_Some_set: "find P xs = Some x \<Longrightarrow> x \<in> set xs \<and> P x"
  by (induction xs) (auto split: if_splits)










subsection \<open>Failed requests\<close>

lemma checkout_Inl:
  "snd (checkout e userId req d) = Inl err \<Longrightarrow> fst (checkout e userId req d) = d"
  by (auto simp: checkout_def Let_def transaction_def split: option.splits sum.splits if_splits prod.splits)

lemma ex_checkout_failing:
  "snd (checkout ex_env_failing 7 ex_req ex_db) = Inl (PrismaError ''Transaction API error'')"
  by code_simp

subsection \<open>Cancellation\<close>

lemma cancel_tx_Inr:
  assumes "cancel_tx fails existingOrder orderId status note (0, d) = Inr (u, k, d')"
  shows "product_rows d' =
           (\<lambda>pid. map_option
                     (\<lambda>p. p\<lparr>p_stockQuantity :=
                                p_stockQuantity p + item_quantity pid (o_items existingOrder)\<rparr>)
                     (product_rows d pid)) \<and>
         discount_rows d' =
           map (\<lambda>r. if o_discountId existingOrder = Some (d_id r) \<and> d_id r \<noteq> 0
                     then r\<lparr>d_usedCount := d_usedCount r - 1\<rparr> else r)
             (discount_rows d) \<and>
         order_rows d' =
           map (\<lambda>r. if o_id r = orderId then r\<lparr>o_status := status, o_adminNote := note\<rparr> else r)
             (order_rows d) \<and>
         cartItem_rows d' = cartItem_rows d"
proof -
  from assms obtain k1 d1 k2 d2 where
    stock: "restore_stock fails (o_items existingOrder) (0, d) = Inr ((), k1, d1)"
    and disc: "(case o_discountId existingOrder of
                  None \<Rightarrow> tx_return ()
                | Some i \<Rightarrow> if i = 0 then tx_return ()
                            else tx_query fails (discount_update_decrement i 1)) (k1, d1)
                = Inr ((), k2, d2)"
    and upd: "tx_query fails (order_update orderId status note) (k2, d2) = Inr (u, k, d')"
    unfolding cancel_tx_def by (auto simp: tx_bind_Inr)
  note S = restore_stock_Inr[OF stock]
  have D: "product_rows d2 = product_rows d1 \<and> order_rows d2 = order_rows d1 \<and>
           cartItem_rows d2 = cartItem_rows d1 \<and>
           discount_rows d2 =
             map (\<lambda>r. if o_discountId existingOrder = Some (d_id r) \<and> d_id r \<noteq> 0
                       then r\<lparr>d_usedCount := d_usedCount r - 1\<rparr> else r)
               (discount_rows d1)"
  proof (cases "o_discountId existingOrder")
    case None
    with disc show ?thesis by (simp add: tx_return_Inr)
  next
    case (Some i)
    show ?thesis
    proof (cases "i = 0")
      case True
      with disc Some have "d2 = d1" by (simp add: tx_return_Inr)
      moreover have "map (\<lambda>r. if o_discountId existingOrder = Some (d_id r) \<and> d_id r \<noteq> 0
                       then r\<lparr>d_usedCount := d_usedCount r - 1\<rparr> else r)
               (discount_rows d1) = discount_rows d1"
        using Some True by (intro map_idI) auto
      ultimately show ?thesis by simp
    next
      case False
      with disc Some show ?thesis
        by (auto simp: tx_query_Inr discount_update_decrement_def split: if_splits)
    qed
  qed
  have U: "product_rows d' = product_rows d2 \<and> discount_rows d' = discount_rows d2 \<and>
           cartItem_rows d' = cartItem_rows d2 \<and>
           order_rows d' =
             map (\<lambda>r. if o_id r = orderId then r\<lparr>o_status := status, o_adminNote := note\<rparr> else r)
               (order_rows d2)"
    using upd by (auto simp: tx_query_Inr order_update_def split: if_splits)
  from S D U show ?thesis by simp
qed

text \<open>The database after a request to change the status of an order: nothing is written,
  or an order is cancelled, or only the status and the note of an order change.\<close>

lemma updateOrderStatus_found:
  assumes st: "uos_status req \<noteq> []" "uos_status req \<in> set validStatuses"
    and found: "find (\<lambda>r. o_id r = orderId) (order_rows d) = Some existingOrder"
    and notboth: "\<not> (o_status existingOrder = ''cancelled'' \<and> uos_status req = ''cancelled'')"
  shows "updateOrderStatus fails orderId req d =
           (case (if uos_status req = ''cancelled''
                  then transaction (cancel_tx fails existingOrder orderId (uos_status req)
                         (adminNote_or (uos_adminNote req) (o_adminNote existingOrder))) d
                  else (case order_update orderId (uos_status req)
                               (adminNote_or (uos_adminNote req) (o_adminNote existingOrder)) d of
                          Inl err \<Rightarrow> (d, Inl err)
                        | Inr (u, d1) \<Rightarrow> (d1, Inr u))) of
              (d', Inl err) \<Rightarrow> (d', Inl err)
            | (d', Inr u) \<Rightarrow> (d', Inr (find (\<lambda>r. o_id r = orderId) (order_rows d'))))"
proof -
  have c: "(uos_status req = ''cancelled'' \<and> o_status existingOrder \<noteq> ''cancelled'') =
           (uos_status req = ''cancelled'')"
    using notboth by blast
  show ?thesis
    unfolding updateOrderStatus_def Let_def
    by (simp only: st found notboth c if_False if_True not_True_eq_False option.case
        split: prod.splits sum.splits)
qed

lemma updateOrderStatus_early:
  assumes "uos_status req = [] \<or> uos_status req \<notin> set validStatuses \<or>
           find (\<lambda>r. o_id r = orderId) (order_rows d) = None \<or>
           (\<exists>existingOrder. find (\<lambda>r. o_id r = orderId) (order_rows d) = Some existingOrder \<and>
              o_status existingOrder = ''cancelled'' \<and> uos_status req = ''cancelled'')"
  shows "\<exists>err. updateOrderStatus fails orderId req d = (d, Inl err)"
  using assms unfolding updateOrderStatus_def Let_def
  by (cases "find (\<lambda>r. o_id r = orderId) (order_rows d)") auto

lemma order_update_found:
  assumes "find (\<lambda>r. o_id r = orderId) (order_rows d) = Some existingOrder"
  shows "order_update orderId status note d =
           Inr ((), d\<lparr>order_rows :=
                       map (\<lambda>r. if o_id r = orderId
                                 then r\<lparr>o_status := status, o_adminNote := note\<rparr> else r)
                         (order_rows d)\<rparr>)"
proof -
  from find_Some_set[OF assms] have "list_ex (\<lambda>r. o_id r = orderId) (order_rows d)"
    unfolding list_ex_iff by blast
  then show ?thesis by (simp add: order_update_def)
qed

lemma updateOrderStatus_Inl:
  assumes "snd (updateOrderStatus fails orderId req d) = Inl err"
  shows "fst (updateOrderStatus fails orderId req d) = d"
proof (cases "uos_status req = [] \<or> uos_status req \<notin> set validStatuses \<or>
           find (\<lambda>r. o_id r = orderId) (order_rows d) = None \<or>
           (\<exists>existingOrder. find (\<lambda>r. o_id r = orderId) (order_rows d) = Some existingOrder \<and>
              o_status existingOrder = ''cancelled'' \<and> uos_status req = ''cancelled'')")
  case True
  from updateOrderStatus_early[OF True, of fails] show ?thesis by auto
next
  case False
  then obtain existingOrder where
    st: "uos_status req \<noteq> []" "uos_status req \<in> set validStatuses"
    and found: "find (\<lambda>r. o_id r = orderId) (order_rows d) = Some existingOrder"
    and notboth: "\<not> (o_status existingOrder = ''cancelled'' \<and> uos_status req = ''cancelled'')"
    by (cases "find (\<lambda>r. o_id r = orderId) (order_rows d)") auto
  note eq = updateOrderStatus_found[OF st found notboth, of fails]
  show ?thesis
  proof (cases "uos_status req = ''cancelled''")
    case True
    show ?thesis
      using assms unfolding eq
      by (simp add: True transaction_def split: sum.splits prod.splits)
  next
    case False
    show ?thesis
      using assms unfolding eq
      by (simp add: False order_update_found[OF found])
  qed
qed

lemma updateOrderStatus_Inr:
  assumes "snd (updateOrderStatus fails orderId req d) = Inr res"
  shows "\<exists>existingOrder.
      find (\<lambda>r. o_id r = orderId) (order_rows d) = Some existingOrder \<and>
      res = find (\<lambda>r. o_id r = orderId) (order_rows (fst (updateOrderStatus fails orderId req d))) \<and>
      order_rows (fst (updateOrderStatus fails orderId req d)) =
        map (\<lambda>r. if o_id r = orderId
                  then r\<lparr>o_status := uos_status req,
                         o_adminNote := adminNote_or (uos_adminNote req) (o_adminNote existingOrder)\<rparr>
                  else r)
          (order_rows d) \<and>
      cartItem_rows (fst (updateOrderStatus fails orderId req d)) = cartItem_rows d \<and>
      (if uos_status req = ''cancelled''
       then o_status existingOrder \<noteq> ''cancelled'' \<and>
            product_rows (fst (updateOrderStatus fails orderId req d)) =
              (\<lambda>pid. map_option
                        (\<lambda>p. p\<lparr>p_stockQuantity :=
                                   p_stockQuantity p + item_quantity pid (o_items existingOrder)\<rparr>)
                        (product_rows d pid)) \<and>
            discount_rows (fst (updateOrderStatus fails orderId req d)) =
              map (\<lambda>r. if o_discountId existingOrder = Some (d_id r) \<and> d_id r \<noteq> 0
                        then r\<lparr>d_usedCount := d_usedCount r - 1\<rparr> else r)
                (discount_rows d)
       else product_rows (fst (updateOrderStatus fails orderId req d)) = product_rows d \<and>
            discount_rows (fst (updateOrderStatus fails orderId req d)) = discount_rows d)"
proof (cases "uos_status req = [] \<or> uos_status req \<notin> set validStatuses \<or>
           find (\<lambda>r. o_id r = orderId) (order_rows d) = None \<or>
           (\<exists>existingOrder. find (\<lambda>r. o_id r = orderId) (order_rows d) = Some existingOrder \<and>
              o_status existingOrder = ''cancelled'' \<and> uos_status req = ''cancelled'')")
  case True
  from updateOrderStatus_early[OF True, of fails] assms show ?thesis by auto
next
  case False
  then obtain existingOrder where
    st: "uos_status req \<noteq> []" "uos_status req \<in> set validStatuses"
    and found: "find (\<lambda>r. o_id r = orderId) (order_rows d) = Some existingOrder"
    and notboth: "\<not> (o_status existingOrder = ''cancelled'' \<and> uos_status req = ''cancelled'')"
    by (cases "find (\<lambda>r. o_id r = orderId) (order_rows d)") auto
  note eq = updateOrderStatus_found[OF st found notboth, of fails]
  let ?note = "adminNote_or (uos_adminNote req) (o_adminNote existingOrder)"
  show ?thesis
  proof (cases "uos_status req = ''cancelled''")
    case True
    let ?body = "cancel_tx fails existingOrder orderId (uos_status req) ?note"
    from assms obtain u k d' where run: "?body (0, d) = Inr (u, k, d')"
      unfolding eq by (auto simp: True transaction_def split: sum.splits prod.splits)
    have res: "updateOrderStatus fails orderId req d =
                 (d', Inr (find (\<lambda>r. o_id r = orderId) (order_rows d')))"
      unfolding eq using run by (simp add: True transaction_def)
    have "res = find (\<lambda>r. o_id r = orderId) (order_rows d')"
      using assms unfolding res by simp
    moreover have "o_status existingOrder \<noteq> ''cancelled''"
      using notboth True by simp
    moreover note cancel_tx_Inr[OF run] found
    ultimately show ?thesis
      unfolding res by (intro exI[of _ existingOrder]) (simp add: True)
  next
    case False
    let ?d1 = "d\<lparr>order_rows :=
                   map (\<lambda>r. if o_id r = orderId
                             then r\<lparr>o_status := uos_status req, o_adminNote := ?note\<rparr> else r)
                     (order_rows d)\<rparr>"
    have res: "updateOrderStatus fails orderId req d =
                 (?d1, Inr (find (\<lambda>r. o_id r = orderId) (order_rows ?d1)))"
      unfolding eq by (simp add: False order_update_found[OF found])
    have "res = find (\<lambda>r. o_id r = orderId) (order_rows ?d1)"
      using assms unfolding res by simp
    then show ?thesis
      unfolding res using found by (intro exI[of _ existingOrder]) (simp add: False)
  qed
qed

lemma item_quantity_checkout:
  "item_quantity pid (map checkout_orderItem cartItems) = cart_quantity pid cartItems"
  by (induction cartItems)
     (auto simp: item_quantity_Nil cart_quantity_Nil item_quantity_Cons cart_quantity_Cons
        checkout_orderItem_def)

lemma ex_cancelled:
  "snd (updateOrderStatus (\<lambda>k. False) 1 ex_cancel (fst (checkout ex_env 7 ex_req ex_db))) =
     Inr (Some (ex_order\<lparr>o_status := ''cancelled''\<rparr>))"
  by code_simp

lemma ex_cancel_failing:
  "snd (updateOrderStatus (\<lambda>k. k = 1) 1 ex_cancel (fst (checkout ex_env 7 ex_req ex_db))) =
     Inl (PrismaError ''Transaction API error'')"
  by code_simp

lemma ex_placed_found:
  "find (\<lambda>r. o_id r = 1) (order_rows (fst (checkout ex_env 7 ex_req ex_db))) = Some ex_order"
  by code_simp

subsection \<open>Stock\<close>

lemma validate_stock_None:
  "validate_stock cartItems = None \<Longrightarrow>
     \<forall>(item, product) \<in> set cartItems.
        p_isActive product \<and> ci_quantity item \<le> p_stockQuantity product"
  by (induction cartItems rule: validate_stock.induct) (auto split: if_splits)

lemma validate_stock_Some:
  "validate_stock cartItems = Some err \<Longrightarrow> \<exists>m. err = BadRequestError (Some m) None"
  by (induction cartItems rule: validate_stock.induct) (auto split: if_splits)

lemma validate_stock_insufficient:
  "\<exists>(item, product) \<in> set cartItems. p_stockQuantity product < ci_quantity item \<Longrightarrow>
     validate_stock cartItems \<noteq> None"
  by (induction cartItems rule: validate_stock.induct) (auto split: if_splits)

lemma distinct_user_products:
  "distinct (map (\<lambda>c. (ci_userId c, ci_productId c)) rows) \<Longrightarrow>
     distinct (map ci_productId (filter (\<lambda>c. ci_userId c = userId) rows))"
  by (induction rows) (auto simp: image_iff)

lemma cart_quantity_absent:
  "pid \<notin> ci_productId ` fst ` set cartItems \<Longrightarrow> cart_quantity pid cartItems = 0"
  by (induction cartItems) (auto simp: cart_quantity_Nil cart_quantity_Cons)

lemma cart_quantity_le_stock:
  assumes "product_rows d pid = Some p" "0 \<le> p_stockQuantity p"
  shows "distinct (map (ci_productId \<circ> fst) cartItems) \<Longrightarrow>
         \<forall>(item, product) \<in> set cartItems.
            product_rows d (ci_productId item) = Some product \<and>
            ci_quantity item \<le> p_stockQuantity product \<Longrightarrow>
         cart_quantity pid cartItems \<le> p_stockQuantity p"
proof (induction cartItems)
  case Nil
  then show ?case using assms by (simp add: cart_quantity_Nil)
next
  case (Cons a cartItems)
  obtain item product where a: "a = (item, product)" by (cases a)
  show ?case
  proof (cases "ci_productId item = pid")
    case True
    with Cons.prems(1) have "pid \<notin> ci_productId ` fst ` set cartItems"
      by (auto simp: a image_iff)
    then have "cart_quantity pid cartItems = 0" by (rule cart_quantity_absent)
    moreover from Cons.prems(2) True assms(1) have "ci_quantity item \<le> p_stockQuantity p"
      by (auto simp: a)
    ultimately show ?thesis by (simp add: a cart_quantity_Cons True)
  next
    case False
    with Cons show ?thesis by (simp add: a cart_quantity_Cons)
  qed
qed

lemma checkout_preserves:
  assumes "stock_nonnegative d" "cart_well_formed d" "orders_well_formed d"
  shows "stock_nonnegative (fst (checkout e userId req d)) \<and>
         cart_well_formed (fst (checkout e userId req d)) \<and>
         orders_well_formed (fst (checkout e userId req d))"
proof (cases "snd (checkout e userId req d)")
  case (Inl err)
  from checkout_Inl[OF Inl] assms show ?thesis by simp
next
  case (Inr res)
  let ?d' = "fst (checkout e userId req d)"
  from checkout_Inr[OF Inr] obtain cartItems discount discountId discountCodeUsed ord where
    cart: "cartItem_findMany userId d = Inr cartItems"
    and vs: "validate_stock cartItems = None"
    and ord: "ord = (checkout_orderData (env_orderNumber e) userId req (checkout_subtotal cartItems)
                    (checkout_shippingCost (city (shippingInfo req)) (checkout_subtotal cartItems))
                    0 discount
                    (checkout_subtotal cartItems +
                     checkout_shippingCost (city (shippingInfo req)) (checkout_subtotal cartItems) +
                     0 - discount)
                    discountId discountCodeUsed)
                 \<lparr>o_id := next_id (order_rows d), o_items := map checkout_orderItem cartItems\<rparr>"
    and rows: "order_rows ?d' = order_rows d @ [ord]"
    and prods: "product_rows ?d' =
             (\<lambda>pid. map_option
                       (\<lambda>p. p\<lparr>p_stockQuantity := p_stockQuantity p - cart_quantity pid cartItems\<rparr>)
                       (product_rows d pid))"
    and carts: "cartItem_rows ?d' = filter (\<lambda>c. ci_userId c \<noteq> userId) (cartItem_rows d)"
    by blast
  have items: "o_items ord = map checkout_orderItem cartItems"
    by (simp add: ord)
  note F = cartItem_findMany_Inr[OF cart]
  have dist: "distinct (map (ci_productId \<circ> fst) cartItems)"
  proof -
    have "map (ci_productId \<circ> fst) cartItems = map ci_productId (map fst cartItems)" by simp
    also have "\<dots> = map ci_productId (filter (\<lambda>c. ci_userId c = userId) (cartItem_rows d))"
      using F by simp
    finally show ?thesis
      using assms(2) distinct_user_products unfolding cart_well_formed_def by metis
  qed
  have enough: "\<forall>(item, product) \<in> set cartItems.
            product_rows d (ci_productId item) = Some product \<and>
            ci_quantity item \<le> p_stockQuantity product"
    using F validate_stock_None[OF vs] by auto
  have 1: "stock_nonnegative ?d'"
    unfolding stock_nonnegative_def
  proof (intro allI impI)
    fix pid p'
    assume "product_rows ?d' pid = Some p'"
    then obtain p where p: "product_rows d pid = Some p"
      and p': "p' = p\<lparr>p_stockQuantity := p_stockQuantity p - cart_quantity pid cartItems\<rparr>"
      unfolding prods by auto
    from assms(1) p have "0 \<le> p_stockQuantity p" unfolding stock_nonnegative_def by blast
    from cart_quantity_le_stock[OF p this dist enough] show "0 \<le> p_stockQuantity p'"
      by (simp add: p')
  qed
  have 2: "cart_well_formed ?d'"
    using assms(2) unfolding cart_well_formed_def carts
    by (auto simp: distinct_map_filter)
  have qty: "\<forall>c \<in> set (map fst cartItems). 1 \<le> ci_quantity c"
    using F assms(2) unfolding cart_well_formed_def by auto
  have "\<forall>item \<in> set (o_items ord). 1 \<le> oi_quantity item"
    unfolding items using qty by (auto simp: checkout_orderItem_def)
  then have 3: "orders_well_formed ?d'"
    using assms(3) unfolding orders_well_formed_def rows by auto
  from 1 2 3 show ?thesis by blast
qed

lemma item_quantity_nonneg:
  "\<forall>item \<in> set items. 1 \<le> oi_quantity item \<Longrightarrow> 0 \<le> item_quantity pid items"
  by (induction items) (auto simp: item_quantity_Nil item_quantity_Cons)

lemma updateOrderStatus_preserves:
  assumes "stock_nonnegative d" "cart_well_formed d" "orders_well_formed d"
  shows "stock_nonnegative (fst (updateOrderStatus fails orderId req d)) \<and>
         cart_well_formed (fst (updateOrderStatus fails orderId req d)) \<and>
         orders_well_formed (fst (updateOrderStatus fails orderId req d))"
proof (cases "snd (updateOrderStatus fails orderId req d)")
  case (Inl err)
  from updateOrderStatus_Inl[OF Inl] assms show ?thesis by simp
next
  case (Inr res)
  let ?d' = "fst (updateOrderStatus fails orderId req d)"
  from updateOrderStatus_Inr[OF Inr] obtain existingOrder where
    found: "find (\<lambda>r. o_id r = orderId) (order_rows d) = Some existingOrder"
    and rows: "order_rows ?d' =
        map (\<lambda>r. if o_id r = orderId
                  then r\<lparr>o_status := uos_status req,
                         o_adminNote := adminNote_or (uos_adminNote req) (o_adminNote existingOrder)\<rparr>
                  else r)
          (order_rows d)"
    and carts: "cartItem_rows ?d' = cartItem_rows d"
    and prods: "product_rows ?d' =
              (\<lambda>pid. map_option
                        (\<lambda>p. p\<lparr>p_stockQuantity :=
                                   p_stockQuantity p + item_quantity pid (o_items existingOrder)\<rparr>)
                        (product_rows d pid)) \<or>
            product_rows ?d' = product_rows d"
    by (auto split: if_splits)
  from find_Some_set[OF found] assms(3)
  have "\<forall>item \<in> set (o_items existingOrder). 1 \<le> oi_quantity item"
    unfolding orders_well_formed_def by blast
  then have nn: "0 \<le> item_quantity pid (o_items existingOrder)" for pid
    by (rule item_quantity_nonneg)
  have 1: "stock_nonnegative ?d'"
    unfolding stock_nonnegative_def
  proof (intro allI impI)
    fix pid p'
    assume p': "product_rows ?d' pid = Some p'"
    from prods show "0 \<le> p_stockQuantity p'"
    proof
      assume "product_rows ?d' =
              (\<lambda>pid. map_option
                        (\<lambda>p. p\<lparr>p_stockQuantity :=
                                   p_stockQuantity p + item_quantity pid (o_items existingOrder)\<rparr>)
                        (product_rows d pid))"
      with p' obtain p where "product_rows d pid = Some p"
        "p' = p\<lparr>p_stockQuantity := p_stockQuantity p + item_quantity pid (o_items existingOrder)\<rparr>"
        by auto
      with assms(1) nn[of pid] show ?thesis
        unfolding stock_nonnegative_def by fastforce
    next
      assume "product_rows ?d' = product_rows d"
      with p' assms(1) show ?thesis unfolding stock_nonnegative_def by auto
    qed
  qed
  have 2: "cart_well_formed ?d'"
    using assms(2) unfolding cart_well_formed_def carts by simp
  have 3: "orders_well_formed ?d'"
    using assms(3) unfolding orders_well_formed_def rows by auto
  from 1 2 3 show ?thesis by blast
qed

lemma run_preserves:
  "stock_nonnegative d \<and> cart_well_formed d \<and> orders_well_formed d \<Longrightarrow>
   stock_nonnegative (run rs d) \<and> cart_well_formed (run rs d) \<and> orders_well_formed (run rs d)"
proof (induction rs arbitrary: d)
  case Nil
  then show ?case by (simp add: run_def)
next
  case (Cons r rs)
  have "stock_nonnegative (handle r d) \<and> cart_well_formed (handle r d) \<and>
        orders_well_formed (handle r d)"
    using Cons.prems checkout_preserves updateOrderStatus_preserves
    by (cases r) auto
  from Cons.IH[OF this] show ?case by (simp add: run_def)
qed

lemma updateOrderStatus_stock_grows:
  assumes "orders_well_formed d"
    and "product_rows (fst (updateOrderStatus fails orderId req d)) pid = Some p'"
  shows "\<exists>p. product_rows d pid = Some p \<and> p_stockQuantity p \<le> p_stockQuantity p'"
proof (cases "snd (updateOrderStatus fails orderId req d)")
  case (Inl err)
  from updateOrderStatus_Inl[OF Inl] assms(2) show ?thesis by simp
next
  case (Inr res)
  let ?d' = "fst (updateOrderStatus fails orderId req d)"
  from updateOrderStatus_Inr[OF Inr] obtain existingOrder where
    found: "find (\<lambda>r. o_id r = orderId) (order_rows d) = Some existingOrder"
    and prods: "product_rows ?d' =
              (\<lambda>pid. map_option
                        (\<lambda>p. p\<lparr>p_stockQuantity :=
                                   p_stockQuantity p + item_quantity pid (o_items existingOrder)\<rparr>)
                        (product_rows d pid)) \<or>
            product_rows ?d' = product_rows d"
    by (auto split: if_splits)
  from find_Some_set[OF found] assms(1)
  have "\<forall>item \<in> set (o_items existingOrder). 1 \<le> oi_quantity item"
    unfolding orders_well_formed_def by blast
  then have nn: "0 \<le> item_quantity pid (o_items existingOrder)"
    by (rule item_quantity_nonneg)
  from prods show ?thesis
  proof
    assume "product_rows ?d' =
              (\<lambda>pid. map_option
                        (\<lambda>p. p\<lparr>p_stockQuantity :=
                                   p_stockQuantity p + item_quantity pid (o_items existingOrder)\<rparr>)
                        (product_rows d pid))"
    with assms(2) obtain p where "product_rows d pid = Some p"
      "p' = p\<lparr>p_stockQuantity := p_stockQuantity p + item_quantity pid (o_items existingOrder)\<rparr>"
      by auto
    with nn show ?thesis by simp
  next
    assume "product_rows ?d' = product_rows d"
    with assms(2) show ?thesis by simp
  qed
qed

lemma checkout_insufficient:
  assumes "checkout_validate req = None" "cartItem_findMany userId d = Inr cartItems"
    and "\<exists>(item, product) \<in> set cartItems. p_stockQuantity product < ci_quantity item"
  shows "\<exists>m. checkout e userId req d = (d, Inl (BadRequestError (Some m) None))"
proof -
  from assms(3) have ne: "cartItems \<noteq> []" by auto
  from validate_stock_insufficient[OF assms(3)] obtain err where
    err: "validate_stock cartItems = Some err" by auto
  from validate_stock_Some[OF err] obtain m where "err = BadRequestError (Some m) None" by blast
  with err have "checkout e userId req d = (d, Inl (BadRequestError (Some m) None))"
    using assms(1,2) ne by (simp add: checkout_def)
  then show ?thesis by blast
qed

lemma ex_db_invariants:
  "stock_nonnegative ex_db \<and> cart_well_formed ex_db \<and> orders_well_formed ex_db"
  by (auto simp: stock_nonnegative_def cart_well_formed_def orders_well_formed_def ex_db_def
      ex_serum_def ex_cream_def split: if_splits)

lemma ex_run_stock:
  "map_option p_stockQuantity (product_rows (run (take 2 ex_requests) ex_db) 1) = Some 4"
  "map_option p_stockQuantity (product_rows (run (take 2 ex_requests) ex_db) 2) = Some 3"
  "map_option p_stockQuantity (product_rows (run ex_requests ex_db) 1) = Some 5"
  "map_option p_stockQuantity (product_rows (run ex_requests ex_db) 2) = Some 10"
  by code_simp+

lemma ex_cart9:
  "cartItem_findMany 9 ex_db =
     Inr [(\<lparr>ci_id = 4, ci_userId = 9, ci_productId = 1, ci_quantity = 6\<rparr>, ex_serum)]"
  by code_simp

lemma ex_checkout9:
  "checkout_validate ex_req = None"
  "snd (checkout ex_env 9 ex_req ex_db) =
     Inl (BadRequestError
            (Some (''Insufficient stock for '' @ [CHR 0x22] @ ''Serum'' @ [CHR 0x22] @
                   ''. Only 5 available.'')) None)"
  by code_simp+

subsection \<open>Errors\<close>






















subsection \<open>A cart item with a negative quantity\<close>

lemma ex_moved:
  "snd (moveToCart (\<lambda>k. False) 10 1 (Some (- 1)) ex_db) =
     Inr \<lparr>ci_id = 5, ci_userId = 10, ci_productId = 1, ci_quantity = - 1\<rparr>"
  by code_simp

lemma ex_moved_stock:
  "map_option p_stockQuantity (product_rows ex_db_moved 1) = Some 5"
  "map_option p_stockQuantity (product_rows ex_db_moved 2) = Some 10"
  unfolding ex_db_moved_def by code_simp+

lemma ex_oversell_stock:
  "map_option p_stockQuantity (product_rows (run (take 1 ex_oversell) ex_db_moved) 1) = Some 6"
  "map_option p_stockQuantity (product_rows (run (take 2 ex_oversell) ex_db_moved) 1) = Some 0"
  "map_option p_stockQuantity (product_rows (run ex_oversell ex_db_moved) 1) = Some (- 1)"
  unfolding ex_db_moved_def by code_simp+

lemma moveToCart_tx_products:
  assumes "moveToCart_tx fails userId w quantity (0, d) = Inr (r, k, d')"
  shows "product_rows d' = product_rows d \<and> order_rows d' = order_rows d"
proof -
  from assms obtain existing s1 c s2 where
    1: "tx_query fails (cartItem_findUnique userId (wi_productId w)) (0, d) = Inr (existing, s1)"
    and 2: "(case existing of
               Some ex \<Rightarrow> tx_query fails (cartItem_update (ci_id ex) (ci_quantity ex + quantity))
             | None \<Rightarrow> tx_query fails (cartItem_create userId (wi_productId w) quantity)) s1
            = Inr (c, s2)"
    and 3: "tx_query fails (wishlistItem_delete (wi_id w)) s2 = Inr ((), k, d')"
    unfolding moveToCart_tx_def by (auto simp: tx_bind_Inr tx_return_Inr)
  obtain k1 d1 where s1: "s1 = (k1, d1)" by (cases s1)
  obtain k2 d2 where s2: "s2 = (k2, d2)" by (cases s2)
  from 1 have a: "product_rows d1 = product_rows d \<and> order_rows d1 = order_rows d"
    unfolding s1 by (auto simp: tx_query_Inr cartItem_findUnique_def)
  from 2 have b: "product_rows d2 = product_rows d1 \<and> order_rows d2 = order_rows d1"
    unfolding s1 s2
    by (cases existing)
       (auto simp: tx_query_Inr cartItem_update_def cartItem_create_def Let_def
          split: option.splits if_splits)
  from 3 have c: "product_rows d' = product_rows d2 \<and> order_rows d' = order_rows d2"
    unfolding s2 by (auto simp: tx_query_Inr wishlistItem_delete_def split: if_splits)
  from a b c show ?thesis by simp
qed

lemma moveToCart_products:
  "product_rows (fst (moveToCart fails userId wishlistItemId q d)) = product_rows d \<and>
   order_rows (fst (moveToCart fails userId wishlistItemId q d)) = order_rows d"
proof (cases "wishlistItem_findUnique wishlistItemId d")
  case (Inl err)
  then show ?thesis by (simp add: moveToCart_def)
next
  case (Inr found)
  show ?thesis
  proof (cases found)
    case None
    with Inr show ?thesis by (simp add: moveToCart_def)
  next
    case (Some wp)
    obtain w p where wp: "wp = (w, p)" by (cases wp)
    let ?q = "case q of None \<Rightarrow> 1 | Some q \<Rightarrow> q"
    show ?thesis
    proof (cases "wi_userId w \<noteq> userId \<or> p_stockQuantity p < ?q")
      case True
      with Inr Some wp show ?thesis by (auto simp: moveToCart_def Let_def)
    next
      case False
      with Inr Some wp have eq: "moveToCart fails userId wishlistItemId q d =
          transaction (moveToCart_tx fails userId w ?q) d"
        by (simp add: moveToCart_def Let_def)
      show ?thesis
      proof (cases "moveToCart_tx fails userId w ?q (0, d)")
        case (Inl err)
        then show ?thesis unfolding eq by (simp add: transaction_def)
      next
        case (Inr res)
        then obtain r k d' where run: "moveToCart_tx fails userId w ?q (0, d) = Inr (r, k, d')"
          by (cases res) auto
        from moveToCart_tx_products[OF run] show ?thesis
          unfolding eq by (simp add: transaction_def run)
      qed
    qed
  qed
qed

section \<open>The claims\<close>

text \<open>
  Claim C8, as the code has it. For every product returned by the product, cart and wishlist
  endpoints, the derived stock status is \<open>out_of_stock\<close> exactly when the stock quantity
  is 0, \<open>low_stock\<close> exactly when the stock quantity is not 0 and at most the low-stock
  threshold, and \<open>in_stock\<close> otherwise; the three endpoints compute the same label. For a
  stock quantity that is not negative, "not 0 and at most the threshold" is
  \<open>0 < stockQuantity \<le> lowStockThreshold\<close>.
\<close>

theorem stockStatus_label:
  "(transformProductResponse_stockStatus q t = out_of_stock \<longleftrightarrow> q = 0) \<and>
   (transformProductResponse_stockStatus q t = low_stock \<longleftrightarrow> q \<noteq> 0 \<and> q \<le> t) \<and>
   (transformProductResponse_stockStatus q t = in_stock \<longleftrightarrow> q \<noteq> 0 \<and> t < q) \<and>
   getCart_stockStatus q t = transformProductResponse_stockStatus q t \<and>
   getWishlist_stockStatus q t = transformProductResponse_stockStatus q t"
  by (auto simp: transformProductResponse_stockStatus_def getCart_stockStatus_def
      getWishlist_stockStatus_def)

text \<open>
  Claim C8 as the specification words it says \<open>low_stock\<close> exactly when
  \<open>0 < stockQuantity \<le> lowStockThreshold\<close>. The stock quantity is a signed integer that
  the product endpoints store as they receive it; at \<open>- 1\<close> with threshold \<open>5\<close> the label
  is \<open>low_stock\<close> although \<open>0 < - 1\<close> is false.
\<close>

theorem stockStatus_negative_quantity:
  "transformProductResponse_stockStatus (- 1) 5 = low_stock \<and>
   getCart_stockStatus (- 1) 5 = low_stock \<and>
   getWishlist_stockStatus (- 1) 5 = low_stock \<and>
   \<not> (0 < (- 1 :: int) \<and> (- 1 :: int) \<le> 5)"
  by (simp add: transformProductResponse_stockStatus_def getCart_stockStatus_def
      getWishlist_stockStatus_def)














text \<open>
  Claim C5. Checkout makes all of its writes (the order, the order items, the stock of each
  product, the cart, the use count of the discount) in one transaction and writes nothing
  outside it: when checkout ends in an error, whichever check or query of the transaction
  failed, the database is the one before the request.
\<close>

theorem checkout_atomic:
  assumes "snd (checkout e userId req d) = Inl err"
  shows "fst (checkout e userId req d) = d \<and>
         order_rows (fst (checkout e userId req d)) = order_rows d \<and>
         product_rows (fst (checkout e userId req d)) = product_rows d \<and>
         cartItem_rows (fst (checkout e userId req d)) = cartItem_rows d \<and>
         discount_rows (fst (checkout e userId req d)) = discount_rows d"
  using checkout_Inl[OF assms] by simp

theorem checkout_atomic_witness:
  "env_fails ex_env_failing 3 \<and>
   snd (checkout ex_env_failing 7 ex_req ex_db) = Inl (PrismaError ''Transaction API error'') \<and>
   fst (checkout ex_env_failing 7 ex_req ex_db) = ex_db"
proof -
  have "env_fails ex_env_failing 3" by (simp add: ex_env_failing_def)
  then show ?thesis
    using checkout_atomic[OF ex_checkout_failing] ex_checkout_failing by simp
qed

text \<open>
  Claim C4. Setting the status of an order that is not cancelled to \<open>cancelled\<close> adds to
  the stock of every product the quantity of the order's items of that product and, when
  the order has a discount, takes 1 from the use count of that discount, in one transaction:
  a request that ends in an error has written nothing. Hence a checkout followed at once by
  the cancellation of its order leaves the stock of every product and the use count of every
  discount as they were before the checkout.
\<close>

theorem cancel_restores:
  assumes "uos_status req = ''cancelled''"
  shows
    "(find (\<lambda>r. o_id r = orderId) (order_rows d) = Some existingOrder \<longrightarrow>
      o_status existingOrder \<noteq> ''cancelled'' \<longrightarrow>
      snd (updateOrderStatus fails orderId req d) = Inr res \<longrightarrow>
        product_rows (fst (updateOrderStatus fails orderId req d)) =
          (\<lambda>pid. map_option
                    (\<lambda>p. p\<lparr>p_stockQuantity :=
                               p_stockQuantity p + item_quantity pid (o_items existingOrder)\<rparr>)
                    (product_rows d pid)) \<and>
        discount_rows (fst (updateOrderStatus fails orderId req d)) =
          map (\<lambda>r. if o_discountId existingOrder = Some (d_id r) \<and> d_id r \<noteq> 0
                    then r\<lparr>d_usedCount := d_usedCount r - 1\<rparr> else r)
            (discount_rows d)) \<and>
     (snd (updateOrderStatus fails orderId req d) = Inl err \<longrightarrow>
        fst (updateOrderStatus fails orderId req d) = d) \<and>
     (snd (checkout e userId creq d) = Inr (Some ord) \<longrightarrow>
      snd (updateOrderStatus fails (o_id ord) req (fst (checkout e userId creq d))) = Inr res \<longrightarrow>
        product_rows (fst (updateOrderStatus fails (o_id ord) req (fst (checkout e userId creq d)))) =
          product_rows d \<and>
        discount_rows (fst (updateOrderStatus fails (o_id ord) req (fst (checkout e userId creq d)))) =
          discount_rows d)"
proof (intro conjI impI)
  assume found: "find (\<lambda>r. o_id r = orderId) (order_rows d) = Some existingOrder"
    and ok: "snd (updateOrderStatus fails orderId req d) = Inr res"
  from updateOrderStatus_Inr[OF ok] found assms
  show "product_rows (fst (updateOrderStatus fails orderId req d)) =
          (\<lambda>pid. map_option
                    (\<lambda>p. p\<lparr>p_stockQuantity :=
                               p_stockQuantity p + item_quantity pid (o_items existingOrder)\<rparr>)
                    (product_rows d pid))"
    and "discount_rows (fst (updateOrderStatus fails orderId req d)) =
          map (\<lambda>r. if o_discountId existingOrder = Some (d_id r) \<and> d_id r \<noteq> 0
                    then r\<lparr>d_usedCount := d_usedCount r - 1\<rparr> else r)
            (discount_rows d)"
    by auto
next
  assume "snd (updateOrderStatus fails orderId req d) = Inl err"
  then show "fst (updateOrderStatus fails orderId req d) = d"
    by (rule updateOrderStatus_Inl)
next
  assume placed: "snd (checkout e userId creq d) = Inr (Some ord)"
    and ok: "snd (updateOrderStatus fails (o_id ord) req (fst (checkout e userId creq d))) = Inr res"
  let ?d1 = "fst (checkout e userId creq d)"
  let ?d2 = "fst (updateOrderStatus fails (o_id ord) req ?d1)"
  from checkout_Inr[OF placed] obtain cartItems discount discountId discountCodeUsed where
    ord: "ord = (checkout_orderData (env_orderNumber e) userId creq (checkout_subtotal cartItems)
                    (checkout_shippingCost (city (shippingInfo creq)) (checkout_subtotal cartItems))
                    0 discount
                    (checkout_subtotal cartItems +
                     checkout_shippingCost (city (shippingInfo creq)) (checkout_subtotal cartItems) +
                     0 - discount)
                    discountId discountCodeUsed)
                 \<lparr>o_id := next_id (order_rows d), o_items := map checkout_orderItem cartItems\<rparr>"
    and rows: "order_rows ?d1 = order_rows d @ [ord]"
    and prods: "product_rows ?d1 =
             (\<lambda>pid. map_option
                       (\<lambda>p. p\<lparr>p_stockQuantity := p_stockQuantity p - cart_quantity pid cartItems\<rparr>)
                       (product_rows d pid))"
    and discs: "discount_rows ?d1 =
             (case discountId of
                None \<Rightarrow> discount_rows d
              | Some i \<Rightarrow> if i = 0 then discount_rows d
                          else map (\<lambda>r. if d_id r = i then r\<lparr>d_usedCount := d_usedCount r + 1\<rparr> else r)
                                 (discount_rows d))"
    by auto
  have f: "o_id ord = next_id (order_rows d)" "o_items ord = map checkout_orderItem cartItems"
    "o_discountId ord = discountId"
    by (simp_all add: ord checkout_orderData_def Let_def)
  have found: "find (\<lambda>r. o_id r = o_id ord) (order_rows ?d1) = Some ord"
    unfolding rows f(1) by (rule find_fresh_order) (simp add: f(1))
  from updateOrderStatus_Inr[OF ok] found assms
  have p2: "product_rows ?d2 =
          (\<lambda>pid. map_option
                    (\<lambda>p. p\<lparr>p_stockQuantity := p_stockQuantity p + item_quantity pid (o_items ord)\<rparr>)
                    (product_rows ?d1 pid))"
    and d2: "discount_rows ?d2 =
          map (\<lambda>r. if o_discountId ord = Some (d_id r) \<and> d_id r \<noteq> 0
                    then r\<lparr>d_usedCount := d_usedCount r - 1\<rparr> else r)
            (discount_rows ?d1)"
    by auto
  show "product_rows ?d2 = product_rows d"
    unfolding p2 prods f(2) item_quantity_checkout
    by (rule ext) (simp add: option.map_comp comp_def option.map_ident)
  show "discount_rows ?d2 = discount_rows d"
  proof (cases discountId)
    case None
    then show ?thesis unfolding d2 discs f(3) by (simp add: map_idI)
  next
    case (Some i)
    then show ?thesis unfolding d2 discs f(3)
      by (cases "i = 0") (auto intro!: map_idI)
  qed
qed

theorem cancel_restores_witness:
  "uos_status ex_cancel = ''cancelled'' \<and>
   snd (checkout ex_env 7 ex_req ex_db) = Inr (Some ex_order) \<and>
   snd (updateOrderStatus (\<lambda>k. False) (o_id ex_order) ex_cancel (fst (checkout ex_env 7 ex_req ex_db))) =
     Inr (Some (ex_order\<lparr>o_status := ''cancelled''\<rparr>)) \<and>
   product_rows
     (fst (updateOrderStatus (\<lambda>k. False) (o_id ex_order) ex_cancel
            (fst (checkout ex_env 7 ex_req ex_db)))) = product_rows ex_db \<and>
   discount_rows
     (fst (updateOrderStatus (\<lambda>k. False) (o_id ex_order) ex_cancel
            (fst (checkout ex_env 7 ex_req ex_db)))) = discount_rows ex_db \<and>
   find (\<lambda>r. o_id r = 1) (order_rows (fst (checkout ex_env 7 ex_req ex_db))) = Some ex_order \<and>
   o_status ex_order \<noteq> ''cancelled'' \<and>
   product_rows
     (fst (updateOrderStatus (\<lambda>k. False) 1 ex_cancel (fst (checkout ex_env 7 ex_req ex_db)))) =
     (\<lambda>pid. map_option
               (\<lambda>p. p\<lparr>p_stockQuantity := p_stockQuantity p + item_quantity pid (o_items ex_order)\<rparr>)
               (product_rows (fst (checkout ex_env 7 ex_req ex_db)) pid)) \<and>
   snd (updateOrderStatus (\<lambda>k. k = 1) 1 ex_cancel (fst (checkout ex_env 7 ex_req ex_db))) =
     Inl (PrismaError ''Transaction API error'') \<and>
   fst (updateOrderStatus (\<lambda>k. k = 1) 1 ex_cancel (fst (checkout ex_env 7 ex_req ex_db))) =
     fst (checkout ex_env 7 ex_req ex_db) \<and>
   map_option p_stockQuantity (product_rows (fst (checkout ex_env 7 ex_req ex_db)) 2) = Some 8 \<and>
   map_option p_stockQuantity (product_rows ex_db 2) = Some 10 \<and>
   map d_usedCount (discount_rows (fst (checkout ex_env 7 ex_req ex_db))) = [4, 0, 0] \<and>
   map d_usedCount (discount_rows ex_db) = [3, 0, 0]"
proof -
  have c: "uos_status ex_cancel = ''cancelled''" by (simp add: ex_cancel_def)
  have id: "o_id ex_order = 1" by (simp add: ex_order_def)
  have run: "snd (updateOrderStatus (\<lambda>k. False) (o_id ex_order) ex_cancel
                    (fst (checkout ex_env 7 ex_req ex_db))) =
               Inr (Some (ex_order\<lparr>o_status := ''cancelled''\<rparr>))"
    unfolding id by (rule ex_cancelled)
  have vals: "map_option p_stockQuantity (product_rows (fst (checkout ex_env 7 ex_req ex_db)) 2) = Some 8"
    "map_option p_stockQuantity (product_rows ex_db 2) = Some 10"
    "map d_usedCount (discount_rows (fst (checkout ex_env 7 ex_req ex_db))) = [4, 0, 0]"
    "map d_usedCount (discount_rows ex_db) = [3, 0, 0]"
    by code_simp+
  have pending: "o_status ex_order \<noteq> ''cancelled''" by (simp add: ex_order_def)
  from cancel_restores[OF c, where fails = "\<lambda>k. False" and e = ex_env and userId = 7
      and creq = ex_req and d = ex_db and ord = ex_order
      and res = "Some (ex_order\<lparr>o_status := ''cancelled''\<rparr>)"]
    ex_checkout run
  have restored: "product_rows
     (fst (updateOrderStatus (\<lambda>k. False) (o_id ex_order) ex_cancel
            (fst (checkout ex_env 7 ex_req ex_db)))) = product_rows ex_db \<and>
   discount_rows
     (fst (updateOrderStatus (\<lambda>k. False) (o_id ex_order) ex_cancel
            (fst (checkout ex_env 7 ex_req ex_db)))) = discount_rows ex_db"
    by blast
  from cancel_restores[OF c, where fails = "\<lambda>k. False" and orderId = 1
      and d = "fst (checkout ex_env 7 ex_req ex_db)" and existingOrder = ex_order
      and res = "Some (ex_order\<lparr>o_status := ''cancelled''\<rparr>)"]
    ex_placed_found pending ex_cancelled
  have added: "product_rows
     (fst (updateOrderStatus (\<lambda>k. False) 1 ex_cancel (fst (checkout ex_env 7 ex_req ex_db)))) =
     (\<lambda>pid. map_option
               (\<lambda>p. p\<lparr>p_stockQuantity := p_stockQuantity p + item_quantity pid (o_items ex_order)\<rparr>)
               (product_rows (fst (checkout ex_env 7 ex_req ex_db)) pid))"
    by blast
  from cancel_restores[OF c, where fails = "\<lambda>k. k = 1" and orderId = 1
      and d = "fst (checkout ex_env 7 ex_req ex_db)"
      and err = "PrismaError ''Transaction API error''"]
    ex_cancel_failing
  have rolled: "fst (updateOrderStatus (\<lambda>k. k = 1) 1 ex_cancel (fst (checkout ex_env 7 ex_req ex_db))) =
     fst (checkout ex_env 7 ex_req ex_db)"
    by blast
  from restored added rolled ex_checkout run c vals ex_placed_found pending ex_cancel_failing
  show ?thesis by blast
qed

text \<open>
  Where the invariant holds. Checkout answers with a bad-request error, before it writes
  anything, when a cart item asks for more than the stock of its product. From a database in
  which no stock quantity is negative, whose cart rows obey the unique key on user and
  product, and whose cart items and order items all have a quantity of at least 1, every
  sequence of checkouts and status changes, cancellations among them, leads to a database in
  which no stock quantity is negative, and a status change never lowers a stock quantity.
\<close>

theorem stock_never_negative:
  assumes "stock_nonnegative d" "cart_well_formed d" "orders_well_formed d"
  shows "stock_nonnegative (run rs d) \<and>
         (checkout_validate req = None \<longrightarrow>
          cartItem_findMany userId d = Inr cartItems \<longrightarrow>
          (\<exists>(item, product) \<in> set cartItems. p_stockQuantity product < ci_quantity item) \<longrightarrow>
            (\<exists>m. checkout e userId req d = (d, Inl (BadRequestError (Some m) None)))) \<and>
         (product_rows (fst (updateOrderStatus fails orderId sreq d)) pid = Some p' \<longrightarrow>
            (\<exists>p. product_rows d pid = Some p \<and> p_stockQuantity p \<le> p_stockQuantity p'))"
  using run_preserves[of d rs] assms checkout_insufficient[of req userId d cartItems e]
    updateOrderStatus_stock_grows[OF assms(3), of fails orderId sreq pid p']
  by blast

theorem stock_never_negative_witness:
  "stock_nonnegative ex_db \<and> cart_well_formed ex_db \<and> orders_well_formed ex_db \<and>
   stock_nonnegative (run (take 2 ex_requests) ex_db) \<and>
   map_option p_stockQuantity (product_rows (run (take 2 ex_requests) ex_db) 2) = Some 3 \<and>
   stock_nonnegative (run ex_requests ex_db) \<and>
   map_option p_stockQuantity (product_rows (run ex_requests ex_db) 2) = Some 10 \<and>
   checkout_validate ex_req = None \<and>
   cartItem_findMany 9 ex_db =
     Inr [(\<lparr>ci_id = 4, ci_userId = 9, ci_productId = 1, ci_quantity = 6\<rparr>, ex_serum)] \<and>
   p_stockQuantity ex_serum < 6 \<and>
   (\<exists>m. checkout ex_env 9 ex_req ex_db = (ex_db, Inl (BadRequestError (Some m) None)))"
proof -
  note inv = ex_db_invariants
  have short: "\<exists>(item, product) \<in> set [(\<lparr>ci_id = 4, ci_userId = 9, ci_productId = 1, ci_quantity = 6\<rparr>, ex_serum)].
                 p_stockQuantity product < ci_quantity item"
    by (simp add: ex_serum_def)
  have less: "p_stockQuantity ex_serum < 6" by (simp add: ex_serum_def)
  from stock_never_negative[of ex_db "take 2 ex_requests"] inv
  have a: "stock_nonnegative (run (take 2 ex_requests) ex_db)" by blast
  from stock_never_negative[of ex_db ex_requests ex_req 9 _ ex_env] inv ex_checkout9(1) ex_cart9 short
  have b: "stock_nonnegative (run ex_requests ex_db) \<and>
           (\<exists>m. checkout ex_env 9 ex_req ex_db = (ex_db, Inl (BadRequestError (Some m) None)))"
    by blast
  from inv a b ex_run_stock ex_checkout9(1) ex_cart9 less show ?thesis by blast
qed



text \<open>
  Claim C6 against the code. The stock quantity of a product is meant never to become
  negative, and \<open>addToCart\<close> and \<open>updateCartItem\<close> refuse a quantity below 1; the
  wishlist's \<open>moveToCart\<close> does not, and checkout tests \<open>stockQuantity < quantity\<close>
  only. User 10 moves a wishlist item to the cart with the quantity \<open>- 1\<close>: no stock
  quantity is negative then. The checkout of user 10 raises the stock of the serum from 5 to
  6, the checkout of user 9 takes those 6, and the cancellation of the order of user 10 adds
  \<open>- 1\<close> to the stock, which ends at \<open>- 1\<close>.
\<close>

theorem stock_negative_after_cancel:
  "snd (moveToCart (\<lambda>k. False) 10 1 (Some (- 1)) ex_db) =
     Inr \<lparr>ci_id = 5, ci_userId = 10, ci_productId = 1, ci_quantity = - 1\<rparr> \<and>
   ex_db_moved = fst (moveToCart (\<lambda>k. False) 10 1 (Some (- 1)) ex_db) \<and>
   product_rows ex_db_moved = [1 \<mapsto> ex_serum, 2 \<mapsto> ex_cream] \<and>
   p_stockQuantity ex_serum = 5 \<and> p_stockQuantity ex_cream = 10 \<and>
   map_option p_stockQuantity (product_rows (run (take 1 ex_oversell) ex_db_moved) 1) = Some 6 \<and>
   map_option p_stockQuantity (product_rows (run (take 2 ex_oversell) ex_db_moved) 1) = Some 0 \<and>
   map_option p_stockQuantity (product_rows (run ex_oversell ex_db_moved) 1) = Some (- 1)"
proof -
  have "product_rows ex_db_moved = product_rows ex_db"
    unfolding ex_db_moved_def using moveToCart_products by blast
  then have start: "product_rows ex_db_moved = [1 \<mapsto> ex_serum, 2 \<mapsto> ex_cream]"
    by (simp add: ex_db_def)
  have stock: "p_stockQuantity ex_serum = 5" "p_stockQuantity ex_cream = 10"
    by (simp_all add: ex_serum_def ex_cream_def)
  from ex_moved start stock ex_oversell_stock show ?thesis
    by (simp add: ex_db_moved_def)
qed

end
